theory Spec2Isabelle
  imports Complex_Main
begin

section \<open>The supplied material\<close>

text \<open>
  The sources are a reStructuredText page (\<^verbatim>\<open>docs/userguide/howto.rst\<close>) and three
  Jupyter notebooks: \<^verbatim>\<open>docs/tutorials/api/model_management.ipynb\<close> holds two notebook
  documents one after the other (Modelling, and Makers - Data reduction) and
  \<^verbatim>\<open>docs/tutorials/analysis/1D/sed_fitting.ipynb\<close> holds one (Flux point fitting).
  Every code cell and every code block is kept line by line, as Python source text, under
  the number of its cell in the notebook; prose (markdown cells, the page's paragraphs)
  is not part of the model. A backslash of the source is written \<open>CHR 0x5C\<close> and a
  single quote \<open>CHR 0x27\<close>.
\<close>

record notebook =
  nb_file :: string
  nb_title :: string
  nb_code :: "string list list"

record howto_entry =
  entry_id :: string
  entry_title :: string
  entry_code :: "string list list"

subsection \<open>The Modelling notebook\<close>

definition modelling_cell_1 :: "string list" where
  \<open>modelling_cell_1 =
   [''%matplotlib inline'',
    ''import matplotlib.pyplot as plt'']\<close>

definition modelling_cell_2 :: "string list" where
  \<open>modelling_cell_2 =
   [''from astropy import units as u'',
    ''from astropy.coordinates import SkyCoord'',
    ''from gammapy.maps import Map'',
    ''from gammapy.datasets import MapDataset, Datasets'',
    ''from gammapy.modeling.models import ('',
    ''    PointSpatialModel,'',
    ''    SkyModel,'',
    ''    TemplateSpatialModel,'',
    ''    PowerLawNormSpectralModel,'',
    ''    Models,'',
    ''    create_fermi_isotropic_diffuse_model,'',
    ''    FoVBackgroundModel,'',
    '')'',
    ''from regions import CircleSkyRegion'']\<close>

definition modelling_cell_3 :: "string list" where
  \<open>modelling_cell_3 =
   [''from gammapy.modeling.models import GaussianSpatialModel'']\<close>

definition modelling_cell_5 :: "string list" where
  \<open>modelling_cell_5 =
   [''fermi_dataset = MapDataset.read('',
    ''    "$GAMMAPY_DATA/fermi-3fhl-gc/fermi-3fhl-gc.fits.gz", name="fermi_dataset"'',
    '')'',
    ''cta_dataset = MapDataset.read('',
    ''    "$GAMMAPY_DATA/cta-1dc-gc/cta-1dc-gc.fits.gz", name="cta_dataset"'',
    '')'',
    ''datasets = Datasets([fermi_dataset, cta_dataset])'']\<close>

definition modelling_cell_7 :: "string list" where
  \<open>modelling_cell_7 =
   [''plt.figure(figsize=(15, 5))'',
    ''ax1 = plt.subplot(121, projection=fermi_dataset.counts.geom.wcs)'',
    ''ax2 = plt.subplot(122, projection=cta_dataset.counts.geom.wcs)'',
    '''',
    '''',
    ''datasets[0].counts.sum_over_axes().smooth(0.05 * u.deg).plot('',
    ''    ax=ax1, stretch="sqrt", add_cbar=True'',
    '')'',
    ''datasets[1].counts.sum_over_axes().smooth(0.05 * u.deg).plot('',
    ''    ax=ax2, stretch="sqrt", add_cbar=True'',
    '')'',
    ''ax1.set_title("Fermi counts")'',
    ''ax2.set_title("CTA counts");'']\<close>

definition modelling_cell_8 :: "string list" where
  \<open>modelling_cell_8 =
   [''datasets.info_table(cumulative=False)'']\<close>

definition modelling_cell_9 :: "string list" where
  \<open>modelling_cell_9 =
   [''print(datasets)'']\<close>

definition modelling_cell_13 :: "string list" where
  \<open>modelling_cell_13 =
   [''models = Models()  # global models object'']\<close>

definition modelling_cell_14 :: "string list" where
  \<open>modelling_cell_14 =
   [''# Create the FoV background model for CTA data'',
    '''',
    ''bkg_model = FoVBackgroundModel(dataset_name=cta_dataset.name)'',
    ''models.append(bkg_model)  # Add the bkg_model to models()'']\<close>

definition modelling_cell_15 :: "string list" where
  \<open>modelling_cell_15 =
   [''# Read the fermi isotropic diffuse background model'',
    '''',
    ''diffuse_iso = create_fermi_isotropic_diffuse_model('',
    ''    filename="$GAMMAPY_DATA/fermi_3fhl/iso_P8R2_SOURCE_V6_v06.txt",'',
    '')'',
    ''diffuse_iso.datasets_names = fermi_dataset.name  # specifying the dataset name'']\<close>

definition modelling_cell_16 :: "string list" where
  \<open>modelling_cell_16 =
   [''models.append(diffuse_iso)  # Add the fermi_bkg_model to models()'']\<close>

definition modelling_cell_17 :: "string list" where
  \<open>modelling_cell_17 =
   [''# Now, add the models to datasets'',
    ''datasets.models = models'']\<close>

definition modelling_cell_18 :: "string list" where
  \<open>modelling_cell_18 =
   [''# You can see that each dataset lists the correct associated models'',
    ''print(datasets)'']\<close>

definition modelling_cell_20 :: "string list" where
  \<open>modelling_cell_20 =
   [''# Create the diffuse model'',
    ''diffuse_galactic_fermi = Map.read('',
    ''    "$GAMMAPY_DATA/fermi-3fhl-gc/gll_iem_v06_gc.fits.gz"'',
    '')'',
    '''',
    ''template_diffuse = TemplateSpatialModel('',
    ''    diffuse_galactic_fermi, normalize=False'',
    '')  # the template model in this case is already a full 3D model, it should not be normalised'',
    '''',
    ''diffuse_iem = SkyModel('',
    ''    spectral_model=PowerLawNormSpectralModel(),'',
    ''    spatial_model=template_diffuse,'',
    ''    name="diffuse-iem",'',
    ''    datasets_names=['',
    ''        cta_dataset.name,'',
    ''        fermi_dataset.name,'',
    ''    ],  # specifying list of dataset names'',
    '')  # A power law spectral correction is applied in this case'']\<close>

definition modelling_cell_21 :: "string list" where
  \<open>modelling_cell_21 =
   [''# Now, add the diffuse model to the global models list'',
    ''models.append(diffuse_iem)'']\<close>

definition modelling_cell_22 :: "string list" where
  \<open>modelling_cell_22 =
   [''# add it to the datasets, and inspect'',
    ''datasets.models = models'',
    ''print(datasets)'']\<close>

definition modelling_cell_24 :: "string list" where
  \<open>modelling_cell_24 =
   [''#%%time'',
    ''# fit2 = Fit(datasets)'',
    ''# result2 = fit2.run()'',
    ''# print(result2.success)'']\<close>

definition modelling_cell_26 :: "string list" where
  \<open>modelling_cell_26 =
   [''from gammapy.catalog import SourceCatalog3FHL'',
    '''',
    ''catalog = SourceCatalog3FHL()'']\<close>

definition modelling_cell_28 :: "string list" where
  \<open>modelling_cell_28 =
   [''gc_sep = catalog.positions.separation('',
    ''    SkyCoord(0, 0, unit="deg", frame="galactic")'',
    '')'',
    ''models_3fhl = ['',
    ''    _.sky_model() for k, _ in enumerate(catalog) if gc_sep[k].value < 8'',
    '']'',
    ''models_3fhl = Models(models_3fhl)'']\<close>

definition modelling_cell_29 :: "string list" where
  \<open>modelling_cell_29 =
   [''len(models_3fhl)'']\<close>

definition modelling_cell_31 :: "string list" where
  \<open>modelling_cell_31 =
   [''region = CircleSkyRegion('',
    ''    center=SkyCoord(0, 0, unit="deg", frame="galactic"), radius=3.0 * u.deg'',
    '')'']\<close>

definition modelling_cell_32 :: "string list" where
  \<open>modelling_cell_32 =
   [''models_selected = models_3fhl.select_region(region)'',
    ''len(models_selected)'']\<close>

definition modelling_cell_34 :: "string list" where
  \<open>modelling_cell_34 =
   [''for model in models_3fhl:'',
    ''    if model not in models_selected:'',
    ''        model.datasets_names = fermi_dataset.name'']\<close>

definition modelling_cell_35 :: "string list" where
  \<open>modelling_cell_35 =
   [''# assign the models to datasets'',
    ''datasets.models = models_3fhl'']\<close>

definition modelling_cell_37 :: "string list" where
  \<open>modelling_cell_37 =
   [''print("Fermi dataset models: ", datasets[0].models.names)'',
    ''print("'' @ [CHR 0x5C] @ ''n CTA dataset models: ", datasets[1].models.names)'']\<close>

definition modelling_cell_40 :: "string list" where
  \<open>modelling_cell_40 =
   [''models.extend(models_selected)'',
    ''print(len(models))'']\<close>

definition modelling_cell_42 :: "string list" where
  \<open>modelling_cell_42 =
   [''model = models_3fhl[0]'',
    ''print(model)'']\<close>

definition modelling_cell_43 :: "string list" where
  \<open>modelling_cell_43 =
   [''# Alternatively'',
    ''model = models_3fhl["3FHL J1731.7-3003"]'',
    ''print(model)'']\<close>

definition modelling_cell_45 :: "string list" where
  \<open>modelling_cell_45 =
   [''models = models_3fhl.select('',
    ''    datasets_names=cta_dataset.name, name_substring="1748"'',
    '')'',
    ''print(models)'']\<close>

definition modelling_cell_47 :: "string list" where
  \<open>modelling_cell_47 =
   [''selection_mask = models_3fhl.selection_mask('',
    ''    name_substring="1748"'',
    '') | models_3fhl.selection_mask(name_substring="1731")'',
    '''',
    ''models_OR = models_3fhl[selection_mask]'',
    ''print(models_OR)'']\<close>

definition modelling_cell_50 :: "string list" where
  \<open>modelling_cell_50 =
   [''# cta_dataset.models.remove()'',
    ''# * this is forbidden *'']\<close>

definition modelling_cell_51 :: "string list" where
  \<open>modelling_cell_51 =
   [''# Remove the model '' @ [CHR 0x27] @ ''3FHL J1744.5-2609'' @ [CHR 0x27],
    ''models_3fhl.remove("3FHL J1744.5-2609")'',
    ''len(models_3fhl)'']\<close>

definition modelling_cell_52 :: "string list" where
  \<open>modelling_cell_52 =
   [''# After any operation on models, it must be re-applied on the datasets'',
    ''datasets.models = models_3fhl'']\<close>

definition modelling_cell_54 :: "string list" where
  \<open>modelling_cell_54 =
   [''datasets.models.names'']\<close>

definition modelling_cell_56 :: "string list" where
  \<open>modelling_cell_56 =
   [''plt.figure(figsize=(16, 5))'',
    ''ax1 = plt.subplot(121, projection=fermi_dataset.counts.geom.wcs)'',
    ''ax2 = plt.subplot(122, projection=cta_dataset.counts.geom.wcs)'',
    '''',
    ''for ax, dataset in zip([ax1, ax2], datasets):'',
    ''    dataset.counts.sum_over_axes().smooth(0.05 * u.deg).plot('',
    ''        ax=ax, stretch="sqrt", add_cbar=True, cmap="afmhot"'',
    ''    )'',
    ''    dataset.models.plot_regions(ax=ax, color="white")'',
    ''    ax.set_title(dataset.name);'']\<close>

definition modelling_cell_58 :: "string list" where
  \<open>modelling_cell_58 =
   [''model = models_3fhl[0]'',
    ''print(model)'']\<close>

definition modelling_cell_59 :: "string list" where
  \<open>modelling_cell_59 =
   [''# To freeze a single parameter'',
    ''model.spectral_model.index.frozen = True'',
    ''print(model)  # index is now frozen'']\<close>

definition modelling_cell_60 :: "string list" where
  \<open>modelling_cell_60 =
   [''# To unfreeze a parameter'',
    ''model.spectral_model.index.frozen = False'']\<close>

definition modelling_cell_61 :: "string list" where
  \<open>modelling_cell_61 =
   [''# To freeze all parameters of a model'',
    ''model.freeze()'',
    ''print(model)'']\<close>

definition modelling_cell_62 :: "string list" where
  \<open>modelling_cell_62 =
   [''# To unfreeze all parameters (except parameters which must remain frozen)'',
    ''model.unfreeze()'',
    ''print(model)'']\<close>

definition modelling_cell_64 :: "string list" where
  \<open>modelling_cell_64 =
   [''# To freeze spatial components'',
    ''model.freeze("spatial")'',
    ''print(model)'']\<close>

definition modelling_cell_66 :: "string list" where
  \<open>modelling_cell_66 =
   [''model.frozen  # False because spectral components are not frozen'']\<close>

definition modelling_cell_67 :: "string list" where
  \<open>modelling_cell_67 =
   [''model.spatial_model.frozen  # all spatial components are frozen'']\<close>

definition modelling_cell_69 :: "string list" where
  \<open>modelling_cell_69 =
   [''models_selected.freeze()  # freeze all parameters of all models'']\<close>

definition modelling_cell_70 :: "string list" where
  \<open>modelling_cell_70 =
   [''models_selected.unfreeze()  # unfreeze all parameters of all models'']\<close>

definition modelling_cell_71 :: "string list" where
  \<open>modelling_cell_71 =
   [''# print the free parameters in the models'',
    ''models_selected.parameters.free_parameters.names'']\<close>

definition modelling_cell_73 :: "string list" where
  \<open>modelling_cell_73 =
   [''help(models_selected.unfreeze)'']\<close>

definition modelling_cell_76 :: "string list" where
  \<open>modelling_cell_76 =
   [''# To save only the models'',
    ''models_3fhl.write("3fhl_models.yaml", overwrite=True)'']\<close>

definition modelling_cell_77 :: "string list" where
  \<open>modelling_cell_77 =
   [''# To save datasets and models'',
    ''datasets.write(filename="datasets-gc.yaml", overwrite=True)'']\<close>

definition modelling_cell_78 :: "string list" where
  \<open>modelling_cell_78 =
   [''# To read only models'',
    ''models = Models.read("3fhl_models.yaml")'',
    ''print(models)'']\<close>

definition modelling_cell_79 :: "string list" where
  \<open>modelling_cell_79 =
   [''# To read datasets with models'',
    ''datasets_read = Datasets.read("datasets-gc.yaml")'',
    ''print(datasets)'']\<close>

definition modelling :: notebook where
  "modelling =
    \<lparr>nb_file = ''docs/tutorials/api/model_management.ipynb'',
     nb_title = ''Modelling'',
     nb_code =
      [modelling_cell_1, modelling_cell_2, modelling_cell_3, modelling_cell_5,
       modelling_cell_7, modelling_cell_8, modelling_cell_9, modelling_cell_13,
       modelling_cell_14, modelling_cell_15, modelling_cell_16, modelling_cell_17,
       modelling_cell_18, modelling_cell_20, modelling_cell_21, modelling_cell_22,
       modelling_cell_24, modelling_cell_26, modelling_cell_28, modelling_cell_29,
       modelling_cell_31, modelling_cell_32, modelling_cell_34, modelling_cell_35,
       modelling_cell_37, modelling_cell_40, modelling_cell_42, modelling_cell_43,
       modelling_cell_45, modelling_cell_47, modelling_cell_50, modelling_cell_51,
       modelling_cell_52, modelling_cell_54, modelling_cell_56, modelling_cell_58,
       modelling_cell_59, modelling_cell_60, modelling_cell_61, modelling_cell_62,
       modelling_cell_64, modelling_cell_66, modelling_cell_67, modelling_cell_69,
       modelling_cell_70, modelling_cell_71, modelling_cell_73, modelling_cell_76,
       modelling_cell_77, modelling_cell_78, modelling_cell_79]\<rparr>"

subsection \<open>The Makers notebook\<close>

definition makers_cell_1 :: "string list" where
  \<open>makers_cell_1 =
   [''from gammapy.makers import ('',
    ''    MapDatasetMaker,'',
    ''    FoVBackgroundMaker,'',
    ''    SafeMaskMaker,'',
    ''    SpectrumDatasetMaker,'',
    ''    ReflectedRegionsBackgroundMaker,'',
    ''    DatasetsMaker'',
    '')'',
    ''from gammapy.datasets import MapDataset, SpectrumDataset, Datasets'',
    ''from gammapy.data import DataStore'',
    ''from gammapy.maps import MapAxis, WcsGeom, RegionGeom'',
    ''from regions import CircleSkyRegion'',
    ''from astropy import units as u'',
    ''import numpy as np'']\<close>

definition makers_cell_3 :: "string list" where
  \<open>makers_cell_3 =
   [''energy_axis = MapAxis.from_bounds('',
    ''    1, 10, nbin=11, name="energy", unit="TeV", interp="log"'',
    '')'',
    ''geom = WcsGeom.create('',
    ''    skydir=(83.63, 22.01),'',
    ''    axes=[energy_axis],'',
    ''    width=5 * u.deg,'',
    ''    binsz=0.05 * u.deg,'',
    ''    frame="icrs",'',
    '')'',
    ''dataset_empty = MapDataset.create(geom=geom)'',
    ''print(dataset_empty)'']\<close>

definition makers_cell_5 :: "string list" where
  \<open>makers_cell_5 =
   [''energy_axis_true = MapAxis.from_bounds('',
    ''    0.3, 10, nbin=31, name="energy_true", unit="TeV", interp="log"'',
    '')'',
    ''dataset_empty = MapDataset.create(geom=geom, energy_axis_true=energy_axis_true)'']\<close>

definition makers_cell_7 :: "string list" where
  \<open>makers_cell_7 =
   [''help(MapDataset.create)'']\<close>

definition makers_cell_9 :: "string list" where
  \<open>makers_cell_9 =
   [''# get observation'',
    ''data_store = DataStore.from_dir("$GAMMAPY_DATA/hess-dl3-dr1")'',
    ''obs = data_store.get_observations([23592])[0]'',
    '''',
    ''# fill dataset'',
    ''maker = MapDatasetMaker()'',
    ''dataset = maker.run(dataset_empty, obs)'',
    ''print(dataset)'',
    ''dataset.counts.sum_over_axes().plot(stretch="sqrt", add_cbar=True);'']\<close>

definition makers_cell_11 :: "string list" where
  \<open>makers_cell_11 =
   [''safe_mask_maker = SafeMaskMaker('',
    ''    methods=["aeff-default", "offset-max"], offset_max="3 deg"'',
    '')'',
    '''',
    ''dataset = maker.run(dataset_empty, obs)'',
    ''dataset = safe_mask_maker.run(dataset, obs)'',
    ''print(dataset.mask_safe)'',
    ''dataset.mask_safe.sum_over_axes().plot();'']\<close>

definition makers_cell_13 :: "string list" where
  \<open>makers_cell_13 =
   [''circle = CircleSkyRegion(center=geom.center_skydir, radius=0.2 * u.deg)'',
    ''exclusion_mask = geom.region_mask([circle], inside=False)'',
    '''',
    ''fov_bkg_maker = FoVBackgroundMaker('',
    ''    method="scale", exclusion_mask=exclusion_mask'',
    '')'',
    ''dataset = fov_bkg_maker.run(dataset)'']\<close>

definition makers_cell_15 :: "string list" where
  \<open>makers_cell_15 =
   [''data_store = DataStore.from_dir("$GAMMAPY_DATA/hess-dl3-dr1")'',
    ''observations = data_store.get_observations([23523, 23592, 23526, 23559])'',
    '''',
    ''energy_axis = MapAxis.from_bounds('',
    ''    1, 10, nbin=11, name="energy", unit="TeV", interp="log"'',
    '')'',
    ''geom = WcsGeom.create('',
    ''    skydir=(83.63, 22.01), axes=[energy_axis], width=5, binsz=0.02'',
    '')'',
    '''',
    ''dataset_maker = MapDatasetMaker()'',
    ''safe_mask_maker = SafeMaskMaker('',
    ''    methods=["aeff-default", "offset-max"], offset_max="3 deg"'',
    '')'',
    '''',
    ''stacked = MapDataset.create(geom)'',
    '''',
    ''for obs in observations:'',
    ''    local_dataset = stacked.cutout(obs.pointing_radec, width="6 deg")'',
    ''    dataset = dataset_maker.run(local_dataset, obs)'',
    ''    dataset = safe_mask_maker.run(dataset, obs)'',
    ''    dataset = fov_bkg_maker.run(dataset)'',
    ''    stacked.stack(dataset)'',
    '''',
    ''print(stacked)'']\<close>

definition makers_cell_17 :: "string list" where
  \<open>makers_cell_17 =
   [''global_dataset = MapDataset.create(geom)'',
    ''makers = [dataset_maker, safe_mask_maker, fov_bkg_maker] #the order matter'',
    ''datasets_maker = DatasetsMaker(makers, stack_datasets=False, n_jobs=1)'',
    ''datasets = datasets_maker.run(global_dataset, observations)'',
    ''print(datasets)'']\<close>

definition makers_cell_19 :: "string list" where
  \<open>makers_cell_19 =
   [''# on region is given by the CircleSkyRegion previously defined'',
    ''geom = RegionGeom.create(region=circle, axes=[energy_axis])'',
    ''exclusion_mask_2d = exclusion_mask.reduce_over_axes('',
    ''    np.logical_or, keepdims=False'',
    '')'',
    '''',
    ''spectrum_dataset_empty = SpectrumDataset.create('',
    ''    geom=geom, energy_axis_true=energy_axis_true'',
    '')'',
    '''',
    ''spectrum_dataset_maker = SpectrumDatasetMaker('',
    ''    containment_correction=False, selection=["counts", "exposure", "edisp"]'',
    '')'',
    ''reflected_bkg_maker = ReflectedRegionsBackgroundMaker('',
    ''    exclusion_mask=exclusion_mask_2d'',
    '')'',
    ''safe_mask_masker = SafeMaskMaker(methods=["aeff-max"], aeff_percent=10)'',
    '''',
    ''datasets = Datasets()'',
    '''',
    ''for observation in observations:'',
    ''    dataset = spectrum_dataset_maker.run('',
    ''        spectrum_dataset_empty.copy(name=f"obs-{observation.obs_id}"),'',
    ''        observation,'',
    ''    )'',
    ''    dataset_on_off = reflected_bkg_maker.run(dataset, observation)'',
    ''    dataset_on_off = safe_mask_masker.run(dataset_on_off, observation)'',
    ''    datasets.append(dataset_on_off)'',
    ''print(datasets)'']\<close>

definition makers_cell_20 :: "string list" where
  \<open>makers_cell_20 = []\<close>

definition makers :: notebook where
  "makers =
    \<lparr>nb_file = ''docs/tutorials/api/model_management.ipynb'',
     nb_title = ''Makers - Data reduction'',
     nb_code =
      [makers_cell_1, makers_cell_3, makers_cell_5, makers_cell_7, makers_cell_9,
       makers_cell_11, makers_cell_13, makers_cell_15, makers_cell_17, makers_cell_19,
       makers_cell_20]\<rparr>"

subsection \<open>The flux point fitting notebook\<close>

definition sed_fitting_cell_2 :: "string list" where
  \<open>sed_fitting_cell_2 =
   [''%matplotlib inline'',
    ''import matplotlib.pyplot as plt'']\<close>

definition sed_fitting_cell_3 :: "string list" where
  \<open>sed_fitting_cell_3 =
   [''from astropy import units as u'',
    ''from gammapy.modeling.models import ('',
    ''    PowerLawSpectralModel,'',
    ''    ExpCutoffPowerLawSpectralModel,'',
    ''    LogParabolaSpectralModel,'',
    ''    SkyModel,'',
    '')'',
    ''from gammapy.estimators import FluxPoints'',
    ''from gammapy.datasets import FluxPointsDataset, Datasets'',
    ''from gammapy.catalog import CATALOG_REGISTRY'',
    ''from gammapy.modeling import Fit'']\<close>

definition sed_fitting_cell_5 :: "string list" where
  \<open>sed_fitting_cell_5 =
   [''catalog_3fgl = CATALOG_REGISTRY.get_cls("3fgl")()'',
    ''catalog_3fhl = CATALOG_REGISTRY.get_cls("3fhl")()'',
    ''catalog_gammacat = CATALOG_REGISTRY.get_cls("gamma-cat")()'']\<close>

definition sed_fitting_cell_6 :: "string list" where
  \<open>sed_fitting_cell_6 =
   [''source_fermi_3fgl = catalog_3fgl["3FGL J1506.6-6219"]'',
    ''source_fermi_3fhl = catalog_3fhl["3FHL J1507.9-6228e"]'',
    ''source_gammacat = catalog_gammacat["HESS J1507-622"]'']\<close>

definition sed_fitting_cell_8 :: "string list" where
  \<open>sed_fitting_cell_8 =
   [''dataset_gammacat = FluxPointsDataset('',
    ''    data=source_gammacat.flux_points, name="gammacat"'',
    '')'',
    ''dataset_gammacat.data.to_table(sed_type="dnde", formatted=True)'']\<close>

definition sed_fitting_cell_9 :: "string list" where
  \<open>sed_fitting_cell_9 =
   [''dataset_3fgl = FluxPointsDataset('',
    ''    data=source_fermi_3fgl.flux_points, name="3fgl"'',
    '')'',
    ''dataset_3fgl.data.to_table(sed_type="dnde", formatted=True)'']\<close>

definition sed_fitting_cell_10 :: "string list" where
  \<open>sed_fitting_cell_10 =
   [''dataset_3fhl = FluxPointsDataset('',
    ''    data=source_fermi_3fhl.flux_points, name="3fhl"'',
    '')'',
    ''dataset_3fhl.data.to_table(sed_type="dnde", formatted=True)'']\<close>

definition sed_fitting_cell_12 :: "string list" where
  \<open>sed_fitting_cell_12 =
   [''pwl = PowerLawSpectralModel('',
    ''    index=2, amplitude="1e-12 cm-2 s-1 TeV-1", reference="1 TeV"'',
    '')'',
    ''model = SkyModel(spectral_model=pwl, name="j1507-pl")'']\<close>

definition sed_fitting_cell_14 :: "string list" where
  \<open>sed_fitting_cell_14 =
   [''datasets = Datasets([dataset_gammacat, dataset_3fgl, dataset_3fhl])'',
    ''datasets.models = model'',
    ''print(datasets)'']\<close>

definition sed_fitting_cell_15 :: "string list" where
  \<open>sed_fitting_cell_15 =
   [''fitter = Fit()'',
    ''result_pwl = fitter.run(datasets=datasets)'']\<close>

definition sed_fitting_cell_17 :: "string list" where
  \<open>sed_fitting_cell_17 =
   [''print(result_pwl)'']\<close>

definition sed_fitting_cell_18 :: "string list" where
  \<open>sed_fitting_cell_18 =
   [''print(model)'']\<close>

definition sed_fitting_cell_20 :: "string list" where
  \<open>sed_fitting_cell_20 =
   [''ax = plt.subplot()'',
    '''',
    ''kwargs = {"ax": ax, "sed_type": "e2dnde", "yunits": u.Unit("TeV cm-2 s-1")}'',
    '''',
    ''for d in datasets:'',
    ''    d.data.plot(label=d.name, **kwargs)'',
    '''',
    ''energy_bounds = [1e-4, 1e2] * u.TeV'',
    ''pwl.plot(energy_bounds=energy_bounds, color="k", **kwargs)'',
    ''pwl.plot_error(energy_bounds=energy_bounds, **kwargs)'',
    ''ax.set_ylim(1e-13, 1e-11)'',
    ''ax.set_xlim(energy_bounds)'',
    ''ax.legend()'']\<close>

definition sed_fitting_cell_22 :: "string list" where
  \<open>sed_fitting_cell_22 =
   [''ecpl = ExpCutoffPowerLawSpectralModel('',
    ''    index=1.8,'',
    ''    amplitude="2e-12 cm-2 s-1 TeV-1",'',
    ''    reference="1 TeV",'',
    ''    lambda_="0.1 TeV-1",'',
    '')'',
    ''model = SkyModel(spectral_model=ecpl, name="j1507-ecpl")'']\<close>

definition sed_fitting_cell_24 :: "string list" where
  \<open>sed_fitting_cell_24 =
   [''datasets.models = model'',
    ''result_ecpl = fitter.run(datasets=datasets)'',
    ''print(model)'']\<close>

definition sed_fitting_cell_26 :: "string list" where
  \<open>sed_fitting_cell_26 =
   [''ax = plt.subplot()'',
    '''',
    ''kwargs = {"ax": ax, "sed_type": "e2dnde", "yunits": u.Unit("TeV cm-2 s-1")}'',
    '''',
    ''for d in datasets:'',
    ''    d.data.plot(label=d.name, **kwargs)'',
    '''',
    ''ecpl.plot(energy_bounds=energy_bounds, color="k", **kwargs)'',
    ''ecpl.plot_error(energy_bounds=energy_bounds, **kwargs)'',
    ''ax.set_ylim(1e-13, 1e-11)'',
    ''ax.set_xlim(energy_bounds)'',
    ''ax.legend()'']\<close>

definition sed_fitting_cell_28 :: "string list" where
  \<open>sed_fitting_cell_28 =
   [''log_parabola = LogParabolaSpectralModel('',
    ''    alpha=2, amplitude="1e-12 cm-2 s-1 TeV-1", reference="1 TeV", beta=0.1'',
    '')'',
    ''model = SkyModel(spectral_model=log_parabola, name="j1507-lp")'']\<close>

definition sed_fitting_cell_29 :: "string list" where
  \<open>sed_fitting_cell_29 =
   [''datasets.models = model'',
    ''result_log_parabola = fitter.run(datasets=datasets)'',
    ''print(model)'']\<close>

definition sed_fitting_cell_30 :: "string list" where
  \<open>sed_fitting_cell_30 =
   [''ax = plt.subplot()'',
    '''',
    ''kwargs = {"ax": ax, "sed_type": "e2dnde", "yunits": u.Unit("TeV cm-2 s-1")}'',
    '''',
    ''for d in datasets:'',
    ''    d.data.plot(label=d.name, **kwargs)'',
    '''',
    ''log_parabola.plot(energy_bounds=energy_bounds, color="k", **kwargs)'',
    ''log_parabola.plot_error(energy_bounds=energy_bounds, **kwargs)'',
    ''ax.set_ylim(1e-13, 1e-11)'',
    ''ax.set_xlim(energy_bounds)'',
    ''ax.legend()'']\<close>

definition sed_fitting_cell_33 :: "string list" where
  \<open>sed_fitting_cell_33 = []\<close>

definition sed_fitting :: notebook where
  "sed_fitting =
    \<lparr>nb_file = ''docs/tutorials/analysis/1D/sed_fitting.ipynb'',
     nb_title = ''Flux point fitting'',
     nb_code =
      [sed_fitting_cell_2, sed_fitting_cell_3, sed_fitting_cell_5, sed_fitting_cell_6,
       sed_fitting_cell_8, sed_fitting_cell_9, sed_fitting_cell_10,
       sed_fitting_cell_12, sed_fitting_cell_14, sed_fitting_cell_15,
       sed_fitting_cell_17, sed_fitting_cell_18, sed_fitting_cell_20,
       sed_fitting_cell_22, sed_fitting_cell_24, sed_fitting_cell_26,
       sed_fitting_cell_28, sed_fitting_cell_29, sed_fitting_cell_30,
       sed_fitting_cell_33]\<rparr>"

subsection \<open>The how-to page\<close>

definition howto_collapseNine_code :: "string list" where
  \<open>howto_collapseNine_code =
   [''from gammapy.estimators import FluxPoints'',
    ''from astropy import units as u'',
    '''',
    ''filename = "$GAMMAPY_DATA/hawc_crab/HAWC19_flux_points.fits"'',
    ''fp = FluxPoints.read(filename)'',
    ''fp.plot(sed_type="e2dnde", xunits=u.erg, yunits=u.Unit("erg cm-2 s-1"))'']\<close>

definition howto_collapseNineteen_code :: "string list" where
  \<open>howto_collapseNineteen_code =
   [''from astropy.io.fits.verify import VerifyWarning'',
    ''import warnings'',
    '''',
    ''with warnings.catch_warnings():'',
    ''    warnings.simplefilter('' @ [CHR 0x27] @ ''ignore'' @ [CHR 0x27] @ '', VerifyWarning)'',
    ''    # do stuff here'']\<close>

definition howto :: "howto_entry list" where
  "howto =
    [\<lparr>entry_id = ''collapseOne'', entry_title = ''Spell and pronounce Gammapy'',
      entry_code = []\<rparr>,
     \<lparr>entry_id = ''collapseTwo'', entry_title = ''Access IACT DL3 data'',
      entry_code = []\<rparr>,
     \<lparr>entry_id = ''collapseThree'', entry_title = ''Select observations'',
      entry_code = []\<rparr>,
     \<lparr>entry_id = ''collapseFour'', entry_title = ''Make an on-axis equivalent livetime map'',
      entry_code = []\<rparr>,
     \<lparr>entry_id = ''collapseFive'', entry_title = ''Check IRFs'',
      entry_code = []\<rparr>,
     \<lparr>entry_id = ''collapseSix'', entry_title = ''Model 2D images'',
      entry_code = []\<rparr>,
     \<lparr>entry_id = ''collapseSeven'', entry_title = ''Extract 1D spectra'',
      entry_code = []\<rparr>,
     \<lparr>entry_id = ''collapseEight'', entry_title = ''Extract a lightcurve'',
      entry_code = []\<rparr>,
     \<lparr>entry_id = ''collapseNine'', entry_title = ''Choose units for plotting'',
      entry_code = [howto_collapseNine_code]\<rparr>,
     \<lparr>entry_id = ''collapseTen'', entry_title = ''Compute source significance'',
      entry_code = []\<rparr>,
     \<lparr>entry_id = ''collapseEleven'', entry_title = ''Compute cumulative significance'',
      entry_code = []\<rparr>,
     \<lparr>entry_id = ''collapseTwelve'', entry_title = ''Detect sources in a map'',
      entry_code = []\<rparr>,
     \<lparr>entry_id = ''collapseThirteen'', entry_title = ''Astrophysical source modeling'',
      entry_code = []\<rparr>,
     \<lparr>entry_id = ''collapseFourteen'', entry_title = ''Implement a custom model'',
      entry_code = []\<rparr>,
     \<lparr>entry_id = ''collapseFifteen'', entry_title = ''Energy dependent spatial models'',
      entry_code = []\<rparr>,
     \<lparr>entry_id = ''collapseSixteen'', entry_title = ''Reduce memory budget for large datasets'',
      entry_code = []\<rparr>,
     \<lparr>entry_id = ''collapseSeventeen'', entry_title = ''Copy part of a data store'',
      entry_code = []\<rparr>,
     \<lparr>entry_id = ''collapseEighteen'', entry_title = ''Interpolate onto a different geometry'',
      entry_code = []\<rparr>,
     \<lparr>entry_id = ''collapseNineteen'', entry_title = ''Suppress warnings'',
      entry_code = [howto_collapseNineteen_code]\<rparr>]"

section \<open>The prose of the supplied material\<close>

text \<open>
  The markdown cells of the notebooks, each under the number of its cell, and the
  how-to page as it is in the file, cut before each \<^verbatim>\<open>accordion-header\<close> directive: the
  first part is the head of the page, the others are its entries, each with its
  directives and, indented, its code block if it has one. A byte outside printable
  ASCII is written by its code.
\<close>

subsection \<open>The Modelling notebook: markdown cells\<close>

definition modelling_md_0 :: "string list" where
  \<open>modelling_md_0 =
   [''# Modelling'',
    '''',
    ''## Aim'',
    '''',
    ''The main aim of this tutorial is to illustrate model management in Gammapy, ''
      @ ''specially how to distribute multiple models across multiple datasets. We also show ''
      @ ''some convenience functions built in gammapy for handling multiple model components.'',
    '''',
    ''**Note: Since gammapy v0.18, the responsibility of model management is left totally ''
      @ ''upon the user. All models, including background models, have to be explicitly ''
      @ ''defined.** To keep track of the used models, we define a global `Models` object ''
      @ ''(which is a collection of `SkyModel` objects) to which we append and delete models.'',
    '''',
    '''',
    ''## Prerequisites'',
    '''',
    ''- Knowledge of 3D analysis, dataset reduction and fitting see [analysis ''
      @ ''notebook](../starting/analysis_2.ipynb)'',
    ''- Understanding of gammapy models [see the models tutorial](models.ipynb)'',
    ''- Analysis of the [galactic center with Fermi-LAT](../data/fermi_lat.ipynb)'',
    ''- Analysis of the [galactic center with CTA-DC1](../analysis/3D/analysis_3d.ipynb)'',
    '''',
    ''## Proposed approach'',
    '''',
    ''To show how datasets interact with models, we use two pre-computed datasets on the ''
      @ ''galactic center, one from Fermi-LAT and the other from simulated CTA (DC1) data. We ''
      @ ''demonstrate'',
    '''',
    ''- Adding background models for each dataset'',
    ''- Sharing a model between multiple datasets'',
    '''',
    ''We then load models from the Fermi 3FHL catalog to show some convenience handling ''
      @ ''for multiple `Models` together'',
    '''',
    ''- accessing models from a catalog'',
    ''- selecting models contributing to a given region'',
    ''- adding and removing models'',
    ''- freezing and thawing multiple model parameters together'',
    ''- serialising models'',
    '''',
    '''',
    ''For computational purposes, we do not perform any fitting in this notebook.'',
    '''',
    ''## Setup'']\<close>

definition modelling_md_4 :: "string list" where
  \<open>modelling_md_4 =
   [''## Read the datasets'',
    '''',
    ''First, we read some precomputed Fermi and CTA datasets, and create a `Datasets` ''
      @ ''object containing the two.'']\<close>

definition modelling_md_6 :: "string list" where
  \<open>modelling_md_6 =
   [''Plot the counts maps to see the region'']\<close>

definition modelling_md_10 :: "string list" where
  \<open>modelling_md_10 =
   [''Note that while the datasets have an associated background map, they currently do ''
      @ ''not have any associated background model. This will be added in the following ''
      @ ''section'']\<close>

definition modelling_md_11 :: "string list" where
  \<open>modelling_md_11 =
   [''## Assigning background models to datasets'',
    '''',
    ''For any IACT dataset (in this case `cta_dataset`) , we have to create a ''
      @ ''`FoVBackgroundModel`. Note that `FoVBackgroundModel`'',
    '' must be specified to one dataset only'',
    '''',
    ''For Fermi-LAT, the background contribution is taken from a diffuse isotropic ''
      @ ''template. To convert this into a gammapy `SkyModel`, use the helper function ''
      @ ''`create_fermi_isotropic_diffuse_model()` '',
    '''',
    ''To attach a model on a particular dataset it is necessary to specify the ''
      @ ''`datasets_names`. Otherwise, by default, the model will be applied to all the ''
      @ ''datasets in `datasets` '']\<close>

definition modelling_md_12 :: "string list" where
  \<open>modelling_md_12 =
   [''First, we must create a global `Models` object which acts as the container for all ''
      @ ''models used in a particular analysis'']\<close>

definition modelling_md_19 :: "string list" where
  \<open>modelling_md_19 =
   [''## Add a model on multiple datasets '',
    '''',
    ''In this section, we show how to add a model to multiple datasets. For this,  we ''
      @ ''specify a list of `datasets_names` to the model. Alternatively, not specifying any ''
      @ ''`datasets_names` will add it to all the datasets.'',
    '''',
    ''For this example, we use a template model of the galactic diffuse emission to be ''
      @ ''shared between the two datasets.'']\<close>

definition modelling_md_23 :: "string list" where
  \<open>modelling_md_23 =
   [''The `diffuse-iem` model is correctly present on both. Now, you can proceed with the ''
      @ ''fit. For computational purposes, we skip it in this notebook'']\<close>

definition modelling_md_25 :: "string list" where
  \<open>modelling_md_25 =
   [''## Loading models from a catalog'',
    '''',
    ''We now load the Fermi 3FHL catalog and demonstrate some convenience functions. For ''
      @ ''more details on using gammapy catalog, see here[catalogs.ipynb].'']\<close>

definition modelling_md_27 :: "string list" where
  \<open>modelling_md_27 =
   [''We first choose some relevant models from the catalog and create a new `Models` object.'']\<close>

definition modelling_md_30 :: "string list" where
  \<open>modelling_md_30 =
   [''## Selecting models contributing to a given region'',
    '''',
    ''We now use `Models.select_region()` to get a subset of models contributing to a ''
      @ ''particular region. You can also use `Models.select_mask()` to get models lying ''
      @ ''inside the `True` region of a mask map`'']\<close>

definition modelling_md_33 :: "string list" where
  \<open>modelling_md_33 =
   [''We now want to assign `models_3fhl` to the Fermi dataset, and `models_selected` to ''
      @ ''both the CTA and Fermi datasets. For this, we explicitlty mention the ''
      @ ''`datasets_names` to the former, and leave it `None` (default) for the latter.'']\<close>

definition modelling_md_36 :: "string list" where
  \<open>modelling_md_36 =
   [''To see the models on a particular dataset, you can simply see'']\<close>

definition modelling_md_38 :: "string list" where
  \<open>modelling_md_38 =
   [''## Combining two `Models`'']\<close>

definition modelling_md_39 :: "string list" where
  \<open>modelling_md_39 =
   [''`Models` can be extended simply as as python lists'']\<close>

definition modelling_md_41 :: "string list" where
  \<open>modelling_md_41 =
   [''## Selecting models from a list'',
    '''',
    ''A `Model` can be selected from a list of `Models` by specifying its index or its name.'']\<close>

definition modelling_md_44 :: "string list" where
  \<open>modelling_md_44 =
   [''`Models.select` can be used to select all models satisfying a list of conditions.'',
    ''To select all models applied on the cta_dataset with the characters `1748` in the name'']\<close>

definition modelling_md_46 :: "string list" where
  \<open>modelling_md_46 =
   [''Note that `Models.select()` combines the different conditions with an `AND` ''
      @ ''operator. If one needs to combine conditions with a `OR` operator, the ''
      @ ''`Models.selection_mask()` method can generate a boolean array that can be used for ''
      @ ''selection. For ex:'']\<close>

definition modelling_md_48 :: "string list" where
  \<open>modelling_md_48 =
   [''## Removing a model from a dataset'']\<close>

definition modelling_md_49 :: "string list" where
  \<open>modelling_md_49 =
   [''Any addition or removal of a model must happen through the global models object, ''
      @ ''which must then be re-applied on the dataset(s). Note that operations **cannot** be ''
      @ ''directly performed on `dataset.models()`.'',
    '''']\<close>

definition modelling_md_53 :: "string list" where
  \<open>modelling_md_53 =
   [''To see the models applied on a dataset, you can simply'']\<close>

definition modelling_md_55 :: "string list" where
  \<open>modelling_md_55 =
   [''### Plotting models on a (counts) map'',
    '''',
    ''The spatial regions of `Models` can be plotted on a given geom using ''
      @ ''`Models.plot_regions()`. You can also use `Models.plot_positions()` to plot the ''
      @ ''centers of each model.'']\<close>

definition modelling_md_57 :: "string list" where
  \<open>modelling_md_57 =
   [''## Freezing and unfreezing model parameters'',
    '''',
    ''For a given model, any parameter can be (un)frozen individually. Additionally, ''
      @ ''`model.freeze` and `model.unfreeze` can be used to freeze and unfreeze all ''
      @ ''parameters in one go.'']\<close>

definition modelling_md_63 :: "string list" where
  \<open>modelling_md_63 =
   [''Only spectral or spatial or temporal components of a model can also be frozen'']\<close>

definition modelling_md_65 :: "string list" where
  \<open>modelling_md_65 =
   [''To check if all the parameters of a model are frozen, '']\<close>

definition modelling_md_68 :: "string list" where
  \<open>modelling_md_68 =
   [''The same operations can be performed on `Models` directly - to perform on a list of ''
      @ ''models at once, eg'']\<close>

definition modelling_md_72 :: "string list" where
  \<open>modelling_md_72 =
   [''There are more functionalities which you can explore. In general, using `help()` on ''
      @ ''any function is a quick and useful way to access the documentation. For ex, ''
      @ ''`Models.unfreeze_all` will unfreeze all parameters, even those which are fixed by ''
      @ ''default. To see its usage, you can simply type'']\<close>

definition modelling_md_74 :: "string list" where
  \<open>modelling_md_74 =
   [''## Serialising models'']\<close>

definition modelling_md_75 :: "string list" where
  \<open>modelling_md_75 =
   [''`Models` can be (independently of `Datasets`) written to/ read from a disk as yaml ''
      @ ''files. '',
    ''Datasets are always serialised along with their associated models, ie, with yaml ''
      @ ''and fits files.'',
    ''eg:'']\<close>

subsection \<open>The Makers notebook: markdown cells\<close>

definition makers_md_0 :: "string list" where
  \<open>makers_md_0 =
   ['''',
    ''# Makers - Data reduction'',
    '''',
    ''## Introduction'',
    '''',
    '''',
    ''The `gammapy.makers` sub-package contains classes to perform data reduction tasks'',
    ''from DL3 data to binned datasets.'',
    ''In the data reduction step the DL3 data is prepared for modeling and fitting,'',
    ''by binning events into a counts map and interpolating the exposure, background,'',
    ''psf and energy dispersion on the chosen analysis geometry.'',
    '''',
    ''## Setup'']\<close>

definition makers_md_2 :: "string list" where
  \<open>makers_md_2 =
   [''## Dataset'',
    '''',
    ''The counts, exposure,'',
    ''background and IRF maps are bundled together in a data structure named `MapDataset`.'',
    ''To handle on-off observations Gammapy also features a `MapDatasetOnOff` class, which'',
    ''stores in addition the `counts_off`, `acceptance` and `acceptance_off` data.'',
    '''',
    ''The first step of the data reduction is to create an empty dataset. A `MapDataset` ''
      @ ''can be created from any `WcsGeom` object. This is illustrated in the following ''
      @ ''example:'',
    '''']\<close>

definition makers_md_4 :: "string list" where
  \<open>makers_md_4 =
   [''It is possible to compute the instrument response functions with different spatial ''
      @ ''and energy binnings as compared to the counts and background maps. For example, one ''
      @ ''can specify a true energy axis which defines the energy binning of the IRFs:'']\<close>

definition makers_md_6 :: "string list" where
  \<open>makers_md_6 =
   [''For the detail of the other options availables, you can always call the help:'']\<close>

definition makers_md_8 :: "string list" where
  \<open>makers_md_8 =
   [''Once this empty "reference" dataset is defined, it can be filled with observational'',
    ''data using the `MapDatasetMaker`:'',
    '''']\<close>

definition makers_md_10 :: "string list" where
  \<open>makers_md_10 =
   [''The `MapDatasetMaker` fills the corresponding `counts`, `exposure`, `background`,'',
    ''`psf` and `edisp` map per observation. The `MapDatasetMaker` has a'',
    ''`selection` parameter, in case some of the maps should not be computed. There is ''
      @ ''also a `background_oversampling` parameter that defines the oversampling factor in ''
      @ ''energy used to compute the bakcground (default is None).'',
    '''',
    ''## Safe data range handling'',
    '''',
    '''',
    ''To exclude the data range from a `MapDataset`, that is associated with'',
    ''high systematics on instrument response functions, a `mask_safe`'',
    ''can be defined. The `mask_safe` is a `Map` object with `bool` data'',
    ''type, which indicates for each pixel, whether it should be included'',
    ''in the analysis. The convention is that a value of `True` or `1`'',
    ''includes the pixel, while a value of `False` or `0` excludes a pixels'',
    ''from the analysis. To compute safe data range masks according to certain'',
    ''criteria, Gammapy provides a `SafeMaskMaker` class. The different criteria are ''
      @ ''given by the `methods`argument, available options are :'',
    '''',
    ''- aeff-default, uses the energy ranged specified in the DL3 data files, if available.'',
    ''- aeff-max, the lower energy threshold is determined such as the effective area is ''
      @ ''above a given percentage of its maximum'',
    ''- edisp-bias, the lower energy threshold is determined such as the energy bias is ''
      @ ''below a given percentage'',
    ''- offset-max, the data beyond a given offset radius from the observation center are ''
      @ ''excluded'',
    ''- bkg-peak, the energy threshold is defined as the upper edge of the energy bin ''
      @ ''with the highest predicted background rate. This method was introduced in the HESS ''
      @ ''DL3 validation paper: https://arxiv.org/pdf/1910.08088.pdf'',
    '''',
    '''',
    '''',
    ''Multiple methods can be combined. Here is an example :'',
    '''']\<close>

definition makers_md_12 :: "string list" where
  \<open>makers_md_12 =
   ['''',
    ''The `SafeMaskMaker` does not modify any data, but only defines the'',
    ''`MapDataset.mask_safe` attribute. This means that the safe data'',
    ''range can be defined and modified in between the data reduction'',
    ''and stacking and fitting. For a joint-likelihood analysis of multiple'',
    ''observations the safe mask is applied to the counts and predicted'',
    ''number of counts map during fitting. This correctly accounts for'',
    ''contributions (spill-over) by the PSF from outside the field of view.'',
    '''',
    ''## Background estimation'',
    '''',
    '''',
    ''The background computed by the `MapDatasetMaker` gives the number of counts predicted'',
    ''by the background IRF of the observation. Because its actual normalization, or even its'',
    ''spectral shape, might be poorly constrained, it is necessary to correct it with the data'',
    ''themselves. This is the role of background estimation Makers. '',
    '''',
    '''',
    ''### FoV background'',
    '''',
    '''',
    ''If the background energy dependent morphology is well reproduced by the background model'',
    ''stored in the IRF, it might be that its normalization is incorrect and that some ''
      @ ''spectral'',
    ''corrections are necessary. This is made possible thanks to the ''
      @ ''`~gammapy.makers.FoVBackgroundMaker`.'',
    ''This technique is recommended in most 3D data reductions. For more details and ''
      @ ''usage, see [fov_background](https://docs.gammapy.org/dev/makers/fov.html).'',
    '''',
    ''Here we are going to use a `~gammapy.makers.FoVBackgroundMaker` that will rescale ''
      @ ''the background model to the data excluding the region where a known source is ''
      @ ''present. For more details on the way to create exclusion masks see the [mask ''
      @ ''maps](mask_maps.ipynb) notebook.'',
    '''']\<close>

definition makers_md_14 :: "string list" where
  \<open>makers_md_14 =
   [''Other backgrounds production methods are available as listed below.'',
    '''',
    ''### Ring background'',
    '''',
    ''If the background model does not reproduce well the morphology, a classical ''
      @ ''approach consists'',
    ''in applying local corrections by smoothing the data with a ring kernel. This allows ''
      @ ''to build a set'',
    ''of OFF counts taking into account the inperfect knowledge of the background. This ''
      @ ''is implemented'',
    ''in the `~gammapy.makers.RingBackgroundMaker` which transforms the Dataset in a ''
      @ ''`MapDatasetOnOff`.'',
    ''This technique is mostly used for imaging, and should not be applied for 3D ''
      @ ''modeling and fitting.'',
    '''',
    ''For more details and usage, see ''
      @ ''[ring_background](https://docs.gammapy.org/dev/makers/ring.html).'',
    '''',
    '''',
    ''### Reflected regions background'',
    '''',
    ''In the absence of a solid background model, a classical technique in Cherenkov ''
      @ ''astronomy for 1D'',
    ''spectral analysis is to estimate the background in a number of OFF regions. When ''
      @ ''the background'',
    ''can be safely estimated as radially symmetric w.r.t. the pointing direction, one ''
      @ ''can apply the'',
    ''reflected regions background technique.'',
    ''This is implemented in the `~gammapy.makers.ReflectedRegionsBackgroundMaker` which ''
      @ ''transforms a'',
    ''`SpectrumDataset` in a `SpectrumDatasetOnOff`. This technique is only used for 1D ''
      @ ''spectral'',
    ''analysis.'',
    '''',
    ''For more details and usage, see ''
      @ ''[reflected_background](https://docs.gammapy.org/dev/makers/reflected.html).'',
    '''',
    '''',
    ''## Data reduction loop'',
    '''',
    ''The data reduction steps can be combined in a single loop to run'',
    ''a full data reduction chain. For this the `MapDatasetMaker` is run'',
    ''first and the output dataset is the passed on to the next maker step.'',
    ''Finally the dataset per observation is stacked into a larger map.'']\<close>

definition makers_md_16 :: "string list" where
  \<open>makers_md_16 =
   [''To maintain good performance it is always recommended to do a cutout'',
    ''of the `MapDataset` as shown above. In case you want to increase the'',
    ''offset-cut later, you can also choose a larger width of the cutout'',
    ''than `2 * offset_max`.'',
    '''',
    ''Note that we stack the individual `MapDataset`, which are computed'',
    ''per observation into a larger dataset. During the stacking the safe data'',
    ''range mask (`MapDataset.mask_safe`) is applied by setting data outside to'',
    ''zero, then data is added to the larger map dataset. To stack multiple'',
    ''observations, the larger dataset must be created first.'',
    '''',
    ''The data reduction loop shown above can be done throught the `DatasetsMaker` class ''
      @ ''that take as argument a list of makers. **Note that the order of the makers list is ''
      @ ''important as it determines their execution order.** Moreover the `stack_datasets` ''
      @ ''option offers the possibily to stack or not the output datasets, and the `n_jobs` ''
      @ ''option allow to use multiple processes on run.'']\<close>

definition makers_md_18 :: "string list" where
  \<open>makers_md_18 =
   [''## Spectrum dataset'',
    '''',
    ''The spectrum datasets represent 1D spectra along an energy axis whitin a given on ''
      @ ''region. The `SpectrumDataset` contains a counts spectrum, and a background model. ''
      @ ''The `SpectrumDatasetOnOff` contains ON and OFF count spectra, background is ''
      @ ''implicitly modeled via the OFF counts spectrum. '',
    '''',
    ''The `SpectrumDatasetMaker` make spectrum dataset for a single observation.'',
    ''In that case the irfs and background are computed at a single fixed offset, which ''
      @ ''is recommend only for point-sources.'',
    '''',
    ''Here is an example of data reduction loop to create `SpectrumDatasetOnOff` datasets:'']\<close>

subsection \<open>The flux point fitting notebook: markdown cells\<close>

definition sed_fitting_md_0 :: "string list" where
  \<open>sed_fitting_md_0 =
   [''# Flux point fitting'',
    '''',
    ''## Prerequisites'',
    '''',
    ''- Some knowledge about retrieving information from catalogs, see [the catalogs ''
      @ ''tutorial](../../api/catalog.ipynb)'',
    '' '',
    ''## Context'',
    '''',
    ''Some high level studies do not rely on reduced datasets with their IRFs but ''
      @ ''directly on higher level products such as flux points. This is not ideal because ''
      @ ''flux points already contain some hypothesis for the underlying spectral shape and ''
      @ ''the uncertainties they carry are usually simplified (e.g. symmetric gaussian ''
      @ ''errors). Yet, this is an efficient way to combine heterogeneous data. '',
    '''',
    ''**Objective: fit spectral models to combined Fermi-LAT and IACT flux points.**'',
    '''',
    ''## Proposed approach'',
    '''',
    ''Here we will load, the spectral points from Fermi-LAT and TeV catalogs and fit them ''
      @ ''with various spectral models to find the best representation of the wide band ''
      @ ''spectrum.'',
    '' '',
    ''The central class we'' @ [CHR 0x27] @ ''re going to use for this example analysis is:  '',
    '''',
    ''- `~gammapy.datasets.FluxPointsDataset`'',
    '''',
    ''In addition we will work with the following data classes:'',
    '''',
    ''- `~gammapy.estimators.FluxPoints`'',
    ''- `~gammapy.catalog.SourceCatalogGammaCat`'',
    ''- `~gammapy.catalog.SourceCatalog3FHL`'',
    ''- `~gammapy.catalog.SourceCatalog3FGL`'',
    '''',
    ''And the following spectral model classes:'',
    '''',
    ''- `~gammapy.modeling.models.PowerLawSpectralModel`'',
    ''- `~gammapy.modeling.models.ExpCutoffPowerLawSpectralModel`'',
    ''- `~gammapy.modeling.models.LogParabolaSpectralModel`'']\<close>

definition sed_fitting_md_1 :: "string list" where
  \<open>sed_fitting_md_1 =
   [''## Setup'',
    '''',
    ''Let us start with the usual IPython notebook and Python imports:'']\<close>

definition sed_fitting_md_4 :: "string list" where
  \<open>sed_fitting_md_4 =
   [''## Load spectral points'',
    '''',
    ''For this analysis we choose to work with the source '' @ [CHR 0x27] @ ''HESS J1507-622''
      @ [CHR 0x27] @ '' and the associated Fermi-LAT sources '' @ [CHR 0x27]
      @ ''3FGL J1506.6-6219'' @ [CHR 0x27] @ '' and '' @ [CHR 0x27] @ ''3FHL J1507.9-6228e''
      @ [CHR 0x27]
      @ ''. We load the source catalogs, and then access source of interest by name:'']\<close>

definition sed_fitting_md_7 :: "string list" where
  \<open>sed_fitting_md_7 =
   [''The corresponding flux points data can be accessed with `.flux_points` attribute:'']\<close>

definition sed_fitting_md_11 :: "string list" where
  \<open>sed_fitting_md_11 =
   [''## Power Law Fit'',
    '''',
    ''First we start with fitting a simple `~gammapy.modeling.models.PowerLawSpectralModel`.'']\<close>

definition sed_fitting_md_13 :: "string list" where
  \<open>sed_fitting_md_13 =
   [''After creating the model we run the fit by passing the `'' @ [CHR 0x27] @ ''flux_points''
      @ [CHR 0x27] @ ''` and `'' @ [CHR 0x27] @ ''model'' @ [CHR 0x27] @ ''` objects:'']\<close>

definition sed_fitting_md_16 :: "string list" where
  \<open>sed_fitting_md_16 =
   [''And print the result:'']\<close>

definition sed_fitting_md_19 :: "string list" where
  \<open>sed_fitting_md_19 =
   [''Finally we plot the data points and the best fit model:'']\<close>

definition sed_fitting_md_21 :: "string list" where
  \<open>sed_fitting_md_21 =
   [''## Exponential Cut-Off Powerlaw Fit'',
    '''',
    ''Next we fit an `~gammapy.modeling.models.ExpCutoffPowerLawSpectralModel` law to the ''
      @ ''data.'']\<close>

definition sed_fitting_md_23 :: "string list" where
  \<open>sed_fitting_md_23 =
   [''We run the fitter again by passing the flux points and the model instance:'']\<close>

definition sed_fitting_md_25 :: "string list" where
  \<open>sed_fitting_md_25 =
   [''We plot the data and best fit model:'']\<close>

definition sed_fitting_md_27 :: "string list" where
  \<open>sed_fitting_md_27 =
   [''## Log-Parabola Fit'',
    '''',
    ''Finally we try to fit a `~gammapy.modeling.models.LogParabolaSpectralModel` model:'']\<close>

definition sed_fitting_md_31 :: "string list" where
  \<open>sed_fitting_md_31 =
   [''## Exercises'',
    '''',
    ''- Fit a `~gammapy.modeling.models.PowerLaw2SpectralModel` and ''
      @ ''`~gammapy.modeling.models.ExpCutoffPowerLaw3FGLSpectralModel` to the same data.'',
    ''- Fit a `~gammapy.modeling.models.ExpCutoffPowerLawSpectralModel` model to Vela X (''
      @ [CHR 0x27] @ ''HESS J0835-455'' @ [CHR 0x27]
      @ '') only and check if the best fit values correspond to the values given in the ''
      @ ''Gammacat catalog'']\<close>

definition sed_fitting_md_32 :: "string list" where
  \<open>sed_fitting_md_32 =
   [''## What next?'',
    '''',
    ''This was an introduction to SED fitting in Gammapy.'',
    '''',
    ''* If you would like to learn how to perform a full Poisson maximum likelihood ''
      @ ''spectral fit, please check out the [spectrum analysis](spectral_analysis.ipynb) ''
      @ ''tutorial.'',
    ''* To learn how to combine heterogeneous datasets to perform a multi-instrument ''
      @ ''forward-folding fit see the [MWL analysis tutorial](../3D/analysis_mwl.ipynb)'']\<close>

subsection \<open>The how-to page\<close>

definition howto_rst_0 :: "string list" where
  \<open>howto_rst_0 =
   [''.. include:: ../references.txt'',
    '''',
    ''.. _howto:'',
    '''',
    ''How To'',
    ''======'',
    '''',
    ''This page contains short "how to" or "frequently asked question" entries for'',
    ''Gammapy. Each entry is for a very specific task, with a short answer, and links'',
    ''to examples and documentation.'',
    '''',
    ''If you'' @ [CHR 0x27]
      @ ''re new to Gammapy, please read the :ref:`userguide` and have a look at the'',
    ''list of :ref:`tutorials`. The information below is in addition to those pages,'',
    ''it'' @ [CHR 0x27] @ ''s not a complete list of how to do everything in Gammapy.'',
    '''',
    '''',
    ''Please give feedback and suggest additions to this page!'',
    '''',
    '''']\<close>

definition howto_rst_1 :: "string list" where
  \<open>howto_rst_1 =
   [''.. accordion-header:: '',
    ''    :id: collapseOne'',
    ''    :title: Spell and pronounce Gammapy'',
    '''',
    ''The recommended spelling is "Gammapy" as proper name. The recommended'',
    ''pronunciation is ['' @ [CHR 0xC9, CHR 0xA1, CHR 0xC3, CHR 0xA6] @ ''m''
      @ [CHR 0xC9, CHR 0x99] @ ''pa'' @ [CHR 0xC9, CHR 0xAA]
      @ ''] where the syllable "py" is pronounced like'',
    ''the english word "pie". You can listen to it `here <http://ipa-reader.xyz/?text=''
      @ [CHR 0xCB, CHR 0x88] @ ''%C9%A1'' @ [CHR 0xC3, CHR 0xA6] @ ''m'' @ [CHR 0xC9, CHR 0x99]
      @ ''pa'' @ [CHR 0xC9, CHR 0xAA] @ ''&voice=Amy>`__.'',
    '''',
    ''.. accordion-footer::'',
    '''']\<close>

definition howto_rst_2 :: "string list" where
  \<open>howto_rst_2 =
   [''.. accordion-header:: '',
    ''    :id: collapseTwo'',
    ''    :title: Access IACT DL3 data'',
    ''    :link: ../tutorials/data/hess.html#DL3-DR1'',
    '''',
    ''To access IACT data in the DL3 format, use the `~gammapy.data.DataStore`. It allows'',
    ''easy access to observations stored in the DL3 data library. '',
    ''It is also internally used by the high level interface `~gammapy.analysis.Analysis`.'',
    '''',
    ''.. accordion-footer::'',
    '''']\<close>

definition howto_rst_3 :: "string list" where
  \<open>howto_rst_3 =
   [''.. accordion-header:: '',
    ''    :id: collapseThree'',
    ''    :title: Select observations'',
    ''    :link: ''
      @ ''../tutorials/starting/analysis_2.html#Defining-the-datastore-and-selecting-observati''
      @ ''ons'',
    '''',
    ''The `~gammapy.data.DataStore` provides access to a summary table of all ''
      @ ''observations available.'',
    ''It can be used to select observations with various criterion. You can for instance ''
      @ ''apply a cone search'',
    ''or also select observations based on other information available using the ''
      @ ''`~gammapy.data.ObservationTable.select_observations` method.'',
    '''',
    ''.. accordion-footer::'',
    '''']\<close>

definition howto_rst_4 :: "string list" where
  \<open>howto_rst_4 =
   [''.. accordion-header:: '',
    ''    :id: collapseFour'',
    ''    :title: Make an on-axis equivalent livetime map'',
    ''    :link: ../tutorials/data/hess.html#On-axis-equivalent-livetime'',
    '''',
    ''The `~gammapy.data.DataStore` provides access to a summary table of all ''
      @ ''observations available.'',
    ''It can be used to select observations with various criterion. You can for instance ''
      @ ''apply a cone search'',
    ''or also select observations based on other information available using the ''
      @ ''`~gammapy.data.ObservationTable.select_observations` method.'',
    '''',
    ''.. accordion-footer::'',
    '''']\<close>

definition howto_rst_5 :: "string list" where
  \<open>howto_rst_5 =
   [''.. accordion-header:: '',
    ''    :id: collapseFive'',
    ''    :title: Check IRFs'',
    ''    :link: ../tutorials/data/cta.html#IRFs'',
    '''',
    ''Gammapy offers a number of methods to explore the content of the various IRFs'',
    ''contained in an observation. This is usually done thanks to their ``peek()``'',
    ''methods. '',
    '''',
    ''.. accordion-footer::'',
    '''']\<close>

definition howto_rst_6 :: "string list" where
  \<open>howto_rst_6 =
   [''.. accordion-header:: '',
    ''    :id: collapseSix'',
    ''    :title: Model 2D images'',
    ''    :link: ../tutorials/index.html#d-image'',
    '''',
    ''Gammapy treats 2D maps as 3D cubes with one bin in energy. Sometimes, you might ''
      @ ''want to use previously '',
    ''obtained images lacking an energy axis (eg: reduced using traditional IACT tools) ''
      @ ''for modeling and fitting '',
    ''inside Gammapy. In this case, it is necessary to attach an `energy` axis on as it ''
      @ ''is showm in the tutorials.'',
    '''',
    ''.. accordion-footer::'',
    '''']\<close>

definition howto_rst_7 :: "string list" where
  \<open>howto_rst_7 =
   [''.. accordion-header:: '',
    ''    :id: collapseSeven'',
    ''    :title: Extract 1D spectra'',
    ''    :link: ../tutorials/analysis/1D/spectral_analysis.html'',
    '''',
    ''The `~gammapy.analysis.Analysis` class can perform spectral extraction. The'',
    ''`~gammapy.analysis.AnalysisConfig` must be defined to produce '' @ [CHR 0x27] @ ''1d''
      @ [CHR 0x27] @ '' datasets.'',
    ''Alternatively, you can follow the spectral analysis tutorial.'',
    '''',
    ''.. accordion-footer::'',
    '''',
    '''']\<close>

definition howto_rst_8 :: "string list" where
  \<open>howto_rst_8 =
   [''.. accordion-header:: '',
    ''    :id: collapseEight'',
    ''    :title: Extract a lightcurve'',
    ''    :link: ../tutorials/analysis/time/light_curve.html'',
    '''',
    ''The light curve estimation tutorial shows how to extract a run-wise lightcurve.'',
    '''',
    ''To perform an analysis in a time range smaller than that of an observation, it'',
    ''is necessary to filter the latter with its `~gammapy.data.Observations.select_time` ''
      @ ''method. This produces'',
    ''an new observation containing events in the specified time range. With the new'',
    ''`~gammapy.data.Observations` it is then possible to perform the usual data'',
    ''reduction which will produce datasets in the correct time range. The light curve'',
    ''extraction can then be performed as usual with the'',
    ''`~gammapy.estimators.LightCurveEstimator`. This is demonstrated in the light curve ''
      @ ''flare tutorial.'',
    '''',
    ''.. accordion-footer::'',
    '''']\<close>

definition howto_rst_9 :: "string list" where
  \<open>howto_rst_9 =
   [''.. accordion-header:: '',
    ''    :id: collapseNine'',
    ''    :title: Choose units for plotting'',
    '''',
    ''Units for plotting are handled with a combination of `matplotlib` and `astropy.units`.'',
    ''For most plotting methods Gammapy forwards additional keywords to the corresponding'',
    ''matplotlib plot method, including the `xunits` and `yunits` keywords, which allows'',
    ''you to define the x and y axis units using `astropy.units`. Here is a minimal example:'',
    '''',
    ''.. code::'',
    '''',
    ''    from gammapy.estimators import FluxPoints'',
    ''    from astropy import units as u'',
    '''',
    ''    filename = "$GAMMAPY_DATA/hawc_crab/HAWC19_flux_points.fits"'',
    ''    fp = FluxPoints.read(filename)'',
    ''    fp.plot(sed_type="e2dnde", xunits=u.erg, yunits=u.Unit("erg cm-2 s-1"))'',
    '''',
    ''.. accordion-footer::'',
    '''']\<close>

definition howto_rst_10 :: "string list" where
  \<open>howto_rst_10 =
   [''.. accordion-header:: '',
    ''    :id: collapseTen'',
    ''    :title: Compute source significance'',
    '''',
    ''Estimate the significance of a source, or more generally of an additional model'',
    ''component (such as e.g. a spectral line on top of a power-law spectrum), is done'',
    ''via a hypothesis test. You fit two models, with and without the extra source or'',
    ''component, then use the test statistic values from both fits to compute the'',
    ''significance or p-value. To obtain the test statistic, call'',
    ''`~gammapy.modeling.Dataset.stat_sum` for the model corresponding to your two'',
    ''hypotheses (or take this value from the print output when running the fit), and'',
    ''take the difference. Note that in Gammapy, the fit statistic is defined as ``S ='',
    ''- 2 * log(L)`` for likelihood ``L``, such that ``TS = S_0 - S_1``. See'',
    '':ref:`overview_datasets` for an overview of fit statistics used.'',
    '''',
    ''.. accordion-footer::'',
    '''']\<close>

definition howto_rst_11 :: "string list" where
  \<open>howto_rst_11 =
   [''.. accordion-header:: '',
    ''    :id: collapseEleven'',
    ''    :title: Compute cumulative significance'',
    ''    :link: ../tutorials/analysis/1D/spectral_analysis.html#Source-statistic'',
    '''',
    ''A classical plot in gamma-ray astronomy is the cumulative significance of a'',
    ''source as a function of observing time. In Gammapy, you can produce it with 1D'',
    ''(spectral) analysis. Once datasets are produced for a given ON region, you can'',
    ''access the total statistics with the ``info_table(cumulative=True)`` method of'',
    ''`~gammapy.datasets.Datasets`.'',
    '''',
    ''.. accordion-footer::'',
    '''']\<close>

definition howto_rst_12 :: "string list" where
  \<open>howto_rst_12 =
   [''.. accordion-header:: '',
    ''    :id: collapseTwelve'',
    ''    :title: Detect sources in a map'',
    ''    :link: ../tutorials/analysis/2D/detect.html'',
    '''',
    ''Gammapy provides methods to perform source detection in a 2D map. First step is'',
    ''to produce a significance map, i.e. a map giving the probability that the flux'',
    ''measured at each position is a background fluctuation. For a'',
    ''`~gammapy.datasets.MapDataset`, the class `~gammapy.estimators.TSMapEstimator` can be'',
    ''used. A simple correlated Li & Ma significance can be used, in particular for'',
    ''ON-OFF datasets. The second step consists in applying a peak finer algorithm,'',
    ''such as `~gammapy.estimators.utils.find_peaks`.'',
    '''',
    ''.. accordion-footer::'',
    '''']\<close>

definition howto_rst_13 :: "string list" where
  \<open>howto_rst_13 =
   [''.. accordion-header:: '',
    ''    :id: collapseThirteen'',
    ''    :title: Astrophysical source modeling'',
    '''',
    ''It is possible to combine Gammapy with astrophysical modeling codes, if they'',
    ''provide a Python interface. Usually this requires some glue code to be written,'',
    ''e.g. `~gammapy.modeling.models.NaimaSpectralModel` is an example of a Gammapy'',
    ''wrapper class around the Naima spectral model and radiation classes, which then'',
    ''allows modeling and fitting of Naima models within Gammapy (e.g. using CTA,'',
    ''H.E.S.S. or Fermi-LAT data).'',
    '''',
    ''.. accordion-footer::'',
    '''']\<close>

definition howto_rst_14 :: "string list" where
  \<open>howto_rst_14 =
   [''.. accordion-header:: '',
    ''    :id: collapseFourteen'',
    ''    :title: Implement a custom model'',
    ''    :link: ../tutorials/api/models.html#Implementing-a-Custom-Model'',
    '''',
    ''Gammapy allows the flexibility of using user-defined models for analysis.'',
    '''',
    ''.. accordion-footer::'',
    '''']\<close>

definition howto_rst_15 :: "string list" where
  \<open>howto_rst_15 =
   [''.. accordion-header:: '',
    ''    :id: collapseFifteen'',
    ''    :title: Energy dependent spatial models'',
    ''    :link: ../tutorials/api/models.html#Models-with-energy-dependent-morphology'',
    '''',
    ''While Gammapy does not ship energy dependent spatial models, it is possible to define'',
    ''such models within the modeling framework.'',
    '''',
    ''.. accordion-footer::'',
    '''']\<close>

definition howto_rst_16 :: "string list" where
  \<open>howto_rst_16 =
   [''.. accordion-header:: '',
    ''    :id: collapseSixteen'',
    ''    :title: Reduce memory budget for large datasets'',
    '''',
    ''When dealing with surveys and large sky regions, the amount of memory required ''
      @ ''might become'',
    ''problematic, in particular because of the default settings of the IRF maps stored in the'',
    ''`~gammapy.datasets.MapDataset` used for the data reduction. Several options can be ''
      @ ''used to reduce'',
    ''the required memory:'',
    ''- Reduce the spatial sampling of the `~gammapy.irf.PSFMap` and the ''
      @ ''`~gammapy.irf.EDispKernelMap`'',
    ''using the `binsz_irf` argument of the `~gammapy.datasets.MapDataset.create` method. ''
      @ ''This will reduce'',
    ''the accuracy of the IRF kernels used for model counts predictions.'',
    ''- Change the default IRFMap axes, in particular the `rad_axis` argument of ''
      @ ''`~gammapy.datasets.MapDataset.create`'',
    ''This axis is used to define the geometry of the `~gammapy.irf.PSFMap` and controls ''
      @ ''the distribution of error angles'',
    ''used to sample the PSF. This will reduce the quality of the PSF description.'',
    ''- If one or several IRFs are not required for the study at hand, it is possible not ''
      @ ''to build them'',
    ''by removing it from the list of options passed to the `~gammapy.makers.MapDatasetMaker`.'',
    '''',
    ''.. accordion-footer::'',
    '''']\<close>

definition howto_rst_17 :: "string list" where
  \<open>howto_rst_17 =
   [''.. accordion-header:: '',
    ''    :id: collapseSeventeen'',
    ''    :title: Copy part of a data store'',
    '''',
    ''To share specific data from a database, it might be necessary to create a new data ''
      @ ''storage with'',
    ''a limited set of observations and summary files following the scheme described in gadf_.'',
    ''This is possible with the method `~gammapy.data.DataStore.copy_obs` provided by the'',
    ''`~gammapy.data.DataStore`. It allows to copy individual observations files in a ''
      @ ''given directory'',
    ''and build the associated observation and HDU tables.'',
    '''',
    ''.. accordion-footer::'',
    '''']\<close>

definition howto_rst_18 :: "string list" where
  \<open>howto_rst_18 =
   [''.. accordion-header:: '',
    ''    :id: collapseEighteen'',
    ''    :title: Interpolate onto a different geometry'',
    ''    :link: ../tutorials/api/maps.html#Filling-maps-from-interpolation'',
    '''',
    ''To interpolate maps onto a different geometry use `~gammapy.maps.Map.interp_to_geom`.'',
    '''',
    ''.. accordion-footer::'',
    '''']\<close>

definition howto_rst_19 :: "string list" where
  \<open>howto_rst_19 =
   [''.. accordion-header:: '',
    ''    :id: collapseNineteen'',
    ''    :title: Suppress warnings'',
    '''',
    ''In general it is not recommended to suppress warnings from code because they'',
    ''might point to potential issues or help debugging a non-working script. However'',
    ''in some cases the cause of the warning is known and the warnings clutter the'',
    ''logging output. In this case it can be useful to locally suppress a specific'',
    ''warning like so:'',
    '''',
    ''.. testcode::'',
    '''',
    ''    from astropy.io.fits.verify import VerifyWarning'',
    ''    import warnings'',
    '''',
    ''    with warnings.catch_warnings():'',
    ''        warnings.simplefilter('' @ [CHR 0x27] @ ''ignore'' @ [CHR 0x27]
      @ '', VerifyWarning)'',
    ''        # do stuff here'',
    '''',
    ''.. accordion-footer::'']\<close>

subsection \<open>The prose of each document\<close>

datatype document = Modelling | Makers | SedFitting | HowTo

fun text_of :: "document \<Rightarrow> string list list" where
  "text_of Modelling =
    [modelling_md_0, modelling_md_4, modelling_md_6, modelling_md_10, modelling_md_11,
     modelling_md_12, modelling_md_19, modelling_md_23, modelling_md_25,
     modelling_md_27, modelling_md_30, modelling_md_33, modelling_md_36,
     modelling_md_38, modelling_md_39, modelling_md_41, modelling_md_44,
     modelling_md_46, modelling_md_48, modelling_md_49, modelling_md_53,
     modelling_md_55, modelling_md_57, modelling_md_63, modelling_md_65,
     modelling_md_68, modelling_md_72, modelling_md_74, modelling_md_75]"
| "text_of Makers =
    [makers_md_0, makers_md_2, makers_md_4, makers_md_6, makers_md_8, makers_md_10,
     makers_md_12, makers_md_14, makers_md_16, makers_md_18]"
| "text_of SedFitting =
    [sed_fitting_md_0, sed_fitting_md_1, sed_fitting_md_4, sed_fitting_md_7,
     sed_fitting_md_11, sed_fitting_md_13, sed_fitting_md_16, sed_fitting_md_19,
     sed_fitting_md_21, sed_fitting_md_23, sed_fitting_md_25, sed_fitting_md_27,
     sed_fitting_md_31, sed_fitting_md_32]"
| "text_of HowTo =
    [howto_rst_0, howto_rst_1, howto_rst_2, howto_rst_3, howto_rst_4, howto_rst_5,
     howto_rst_6, howto_rst_7, howto_rst_8, howto_rst_9, howto_rst_10, howto_rst_11,
     howto_rst_12, howto_rst_13, howto_rst_14, howto_rst_15, howto_rst_16, howto_rst_17,
     howto_rst_18, howto_rst_19]"

definition prose_lines :: "document \<Rightarrow> string list" where
  "prose_lines d = concat (text_of d)"

section \<open>Reading the source text\<close>

text \<open>
  The documents in the order of the files, their code cells, and all lines of code.
\<close>

definition tutorials :: "notebook list" where
  "tutorials = [modelling, makers, sed_fitting]"

definition entry_lines :: "howto_entry \<Rightarrow> string list" where
  "entry_lines e = concat (entry_code e)"

definition howto_cells :: "string list list" where
  "howto_cells = concat (map entry_code howto)"

fun cells_of :: "document \<Rightarrow> string list list" where
  "cells_of Modelling = nb_code modelling"
| "cells_of Makers = nb_code makers"
| "cells_of SedFitting = nb_code sed_fitting"
| "cells_of HowTo = howto_cells"

definition lines_of :: "document \<Rightarrow> string list" where
  "lines_of d = concat (cells_of d)"

definition documents :: "document list" where
  "documents = [Modelling, Makers, SedFitting, HowTo]"

definition supplied_cells :: "string list list" where
  "supplied_cells = concat (map cells_of documents)"

definition supplied_code :: "string list" where
  "supplied_code = concat supplied_cells"

definition supplied_files :: "string list" where
  "supplied_files = remdups (map nb_file tutorials) @ [''docs/userguide/howto.rst'']"

text \<open>Python's \<^verbatim>\<open>s.startswith(p)\<close>, \<^verbatim>\<open>p in s\<close> and \<^verbatim>\<open>s.endswith(p)\<close> on strings.\<close>

fun starts_with :: "string \<Rightarrow> string \<Rightarrow> bool" where
  "starts_with [] s = True"
| "starts_with (a # p) [] = False"
| "starts_with (a # p) (b # s) = (if a = b then starts_with p s else False)"

fun contains :: "string \<Rightarrow> string \<Rightarrow> bool" where
  "contains p [] = (p = [])"
| "contains p (c # s) = (if starts_with p (c # s) then True else contains p s)"

definition ends_with :: "string \<Rightarrow> string \<Rightarrow> bool" where
  "ends_with p s = starts_with (rev p) (rev s)"

definition lstrip :: "string \<Rightarrow> string" where
  "lstrip s = dropWhile (\<lambda>c. c = CHR '' '') s"

text \<open>
  The first token of a line, after its indentation and up to a blank, a colon or an
  opening parenthesis: the keyword of a statement that starts with one
  (\<^verbatim>\<open>def f(x):\<close>, \<^verbatim>\<open>class A:\<close>, \<^verbatim>\<open>try:\<close>, \<^verbatim>\<open>except E:\<close>, \<^verbatim>\<open>with c():\<close>, \<^verbatim>\<open>from m import n\<close>),
  and otherwise the start of an expression or of an assignment's target.
\<close>

definition head_token :: "string \<Rightarrow> string" where
  "head_token l = takeWhile (\<lambda>c. c \<noteq> CHR '' '' \<and> c \<noteq> CHR '':'' \<and> c \<noteq> CHR ''('') (lstrip l)"

text \<open>
  A line that defines a function or a class: it starts a definition
  (\<^verbatim>\<open>def\<close>, \<^verbatim>\<open>async def\<close>, \<^verbatim>\<open>class\<close>) or holds a \<^verbatim>\<open>lambda\<close> expression, whose keyword is
  followed by a blank or by the colon.
\<close>

definition defines_locally :: "string \<Rightarrow> bool" where
  "defines_locally l =
    (head_token l \<in> set [''def'', ''class'', ''async'']
     \<or> contains ''lambda '' l \<or> contains ''lambda:'' l)"

text \<open>
  A line of an error handler: the statements of Python that catch, raise or check
  for a failure.
\<close>

definition handles_errors :: "string \<Rightarrow> bool" where
  "handles_errors l =
    (head_token l \<in> set [''try'', ''except'', ''finally'', ''raise'', ''assert''])"

subsection \<open>Import statements\<close>

text \<open>
  The words of a line: its parts between blanks and commas. The import statements of
  the sources have the forms \<^verbatim>\<open>import m\<close>, \<^verbatim>\<open>import m as a\<close>, \<^verbatim>\<open>from m import n, n\<close>,
  \<^verbatim>\<open>from m import n as a\<close> and \<^verbatim>\<open>from m import (\<close> with one name a line up to the closing
  parenthesis. \<open>imported\<close> gives, for each name a list of lines binds by an import,
  the module it comes from and the name imported (the module itself for \<^verbatim>\<open>import m\<close>).
\<close>

fun words_acc :: "string \<Rightarrow> string \<Rightarrow> string list" where
  "words_acc acc [] = (if acc = [] then [] else [rev acc])"
| "words_acc acc (c # s) =
    (if c = CHR '' '' then (if acc = [] then words_acc [] s else rev acc # words_acc [] s)
     else if c = CHR '','' then (if acc = [] then words_acc [] s else rev acc # words_acc [] s)
     else words_acc (c # acc) s)"

definition words :: "string \<Rightarrow> string list" where
  "words l = words_acc [] l"

fun import_names :: "string list \<Rightarrow> string list" where
  "import_names (n # a # b # ns) =
    (if a = ''as'' then n # import_names ns else n # import_names (a # b # ns))"
| "import_names ns = ns"

definition is_import :: "string \<Rightarrow> bool" where
  "is_import l = (starts_with ''import '' (lstrip l) \<or> starts_with ''from '' (lstrip l))"

text \<open>
  One import statement, from its words: the module whose parenthesis it leaves open
  (if it does), and the names it binds on its own line.
\<close>

fun import_stmt :: "string list \<Rightarrow> string option \<times> (string \<times> string) list" where
  "import_stmt (k # m # i # ns) =
    (if k = ''from'' \<and> i = ''import'' then
       (if ns = [''(''] then (Some m, []) else (None, map (Pair m) (import_names ns)))
     else (None, [(m, m)]))"
| "import_stmt [k, m] = (None, [(m, m)])"
| "import_stmt ws = (None, [])"

fun imported_in :: "string option \<Rightarrow> string list \<Rightarrow> (string \<times> string) list" where
  "imported_in cur [] = []"
| "imported_in (Some m) (l # ls) =
    (if lstrip l = '')'' then imported_in None ls
     else map (Pair m) (import_names (words l)) @ imported_in (Some m) ls)"
| "imported_in None (l # ls) =
    (if is_import l then
       snd (import_stmt (words l)) @ imported_in (fst (import_stmt (words l))) ls
     else imported_in None ls)"

definition imported :: "string list \<Rightarrow> (string \<times> string) list" where
  "imported ls = imported_in None ls"

text \<open>
  A code cell is one Python input, so no statement runs over the end of a cell: the
  imports of a document are those of its cells.
\<close>

definition imports_of :: "document \<Rightarrow> (string \<times> string) list" where
  "imports_of d = concat (map imported (cells_of d))"

text \<open>The top-level package of a dotted module name.\<close>

definition package :: "string \<Rightarrow> string" where
  "package m = takeWhile (\<lambda>c. c \<noteq> CHR ''.'') m"

subsection \<open>String literals and file paths\<close>











subsection \<open>Warning filters and blocks\<close>

text \<open>
  A line that installs a warning filter, and the block a compound statement's header
  opens: the lines after the header, as long as they are indented or blank.
\<close>

definition suppresses_warnings :: "string \<Rightarrow> bool" where
  "suppresses_warnings l =
    (contains ''warnings.simplefilter('' l \<or> contains ''warnings.filterwarnings('' l)"

definition block_of :: "string \<Rightarrow> string list \<Rightarrow> string list" where
  "block_of hdr ls =
    takeWhile (\<lambda>l. l = [] \<or> starts_with '' '' l) (drop 1 (dropWhile (\<lambda>l. l \<noteq> hdr) ls))"

definition warning_entries :: "howto_entry list" where
  "warning_entries = filter (\<lambda>e. list_ex suppresses_warnings (entry_lines e)) howto"

subsection \<open>The operations the tutorials show\<close>

text \<open>
  An operation is performed by one line of a code cell: a method \<open>op_method\<close> called
  on \<open>op_receiver\<close>, which is the class \<open>op_class\<close> itself or a variable bound to an
  instance of it, the class being imported from \<open>op_module\<close>.
\<close>

record operation =
  op_name :: string
  op_doc :: document
  op_cell :: "string list"
  op_line :: string
  op_receiver :: string
  op_method :: string
  op_class :: string
  op_module :: string

definition shown_operations :: "operation list" where
  \<open>shown_operations =
   [\<lparr>op_name = ''read a path into a data store'', op_doc = Makers,
     op_cell = makers_cell_9,
     op_line = ''data_store = DataStore.from_dir("$GAMMAPY_DATA/hess-dl3-dr1")'',
     op_receiver = ''DataStore'', op_method = ''from_dir'',
     op_class = ''DataStore'', op_module = ''gammapy.data''\<rparr>,
    \<lparr>op_name = ''create an empty map dataset from a geometry'', op_doc = Makers,
     op_cell = makers_cell_3,
     op_line = ''dataset_empty = MapDataset.create(geom=geom)'',
     op_receiver = ''MapDataset'', op_method = ''create'',
     op_class = ''MapDataset'', op_module = ''gammapy.datasets''\<rparr>,
    \<lparr>op_name = ''run a maker to fill the maps'', op_doc = Makers,
     op_cell = makers_cell_9,
     op_line = ''dataset = maker.run(dataset_empty, obs)'',
     op_receiver = ''maker'', op_method = ''run'',
     op_class = ''MapDatasetMaker'', op_module = ''gammapy.makers''\<rparr>,
    \<lparr>op_name = ''run a safe-mask maker'', op_doc = Makers,
     op_cell = makers_cell_11,
     op_line = ''dataset = safe_mask_maker.run(dataset, obs)'',
     op_receiver = ''safe_mask_maker'', op_method = ''run'',
     op_class = ''SafeMaskMaker'', op_module = ''gammapy.makers''\<rparr>,
    \<lparr>op_name = ''run a background maker'', op_doc = Makers,
     op_cell = makers_cell_13,
     op_line = ''dataset = fov_bkg_maker.run(dataset)'',
     op_receiver = ''fov_bkg_maker'', op_method = ''run'',
     op_class = ''FoVBackgroundMaker'', op_module = ''gammapy.makers''\<rparr>,
    \<lparr>op_name = ''run a fit on flux points'', op_doc = SedFitting,
     op_cell = sed_fitting_cell_15,
     op_line = ''result_pwl = fitter.run(datasets=datasets)'',
     op_receiver = ''fitter'', op_method = ''run'',
     op_class = ''Fit'', op_module = ''gammapy.modeling''\<rparr>,
    \<lparr>op_name = ''write a model collection to a file'', op_doc = Modelling,
     op_cell = modelling_cell_76,
     op_line = ''models_3fhl.write("3fhl_models.yaml", overwrite=True)'',
     op_receiver = ''models_3fhl'', op_method = ''write'',
     op_class = ''Models'', op_module = ''gammapy.modeling.models''\<rparr>,
    \<lparr>op_name = ''read a model collection from a file'', op_doc = Modelling,
     op_cell = modelling_cell_78,
     op_line = ''models = Models.read("3fhl_models.yaml")'',
     op_receiver = ''Models'', op_method = ''read'',
     op_class = ''Models'', op_module = ''gammapy.modeling.models''\<rparr>]\<close>

definition call_text :: "operation \<Rightarrow> string" where
  "call_text op = op_receiver op @ ''.'' @ op_method op @ ''(''"

definition single_call :: "string \<Rightarrow> bool" where
  "single_call l = (length (filter (\<lambda>c. c = CHR ''('') l) = 1 \<and> ends_with '')'' l)"

definition bound_to :: "document \<Rightarrow> string \<Rightarrow> string \<Rightarrow> bool" where
  "bound_to d r c = (r = c \<or> list_ex (starts_with (r @ '' = '' @ c @ ''('')) (lines_of d))"

definition public_name :: "string \<Rightarrow> bool" where
  "public_name n = (\<not> starts_with ''_'' n)"

definition library_call :: "operation \<Rightarrow> bool" where
  "library_call op =
    (op_cell op \<in> set (cells_of (op_doc op))
     \<and> op_line op \<in> set (op_cell op)
     \<and> contains (call_text op) (op_line op)
     \<and> single_call (op_line op)
     \<and> bound_to (op_doc op) (op_receiver op) (op_class op)
     \<and> (op_module op, op_class op) \<in> set (imports_of (op_doc op))
     \<and> package (op_module op) = ''gammapy''
     \<and> public_name (op_method op))"

subsection \<open>Concurrency constructs\<close>

text \<open>
  Python code runs concurrently through a package that starts threads, processes or
  an event loop, or through the \<^verbatim>\<open>async\<close> and \<^verbatim>\<open>await\<close> keywords. The packages are those
  of the standard library's chapter on concurrent execution, \<^verbatim>\<open>asyncio\<close>, and the common
  third-party ones.
\<close>

definition concurrency_packages :: "string list" where
  "concurrency_packages =
    [''threading'', ''multiprocessing'', ''concurrent'', ''subprocess'', ''sched'',
     ''queue'', ''_thread'', ''asyncio'', ''joblib'', ''dask'', ''ray'', ''mpi4py'']"

definition uses_concurrency :: "document \<Rightarrow> bool" where
  "uses_concurrency d =
    list_ex (\<lambda>m. package m \<in> set concurrency_packages) (map fst (imports_of d))"

definition asynchronous :: "string \<Rightarrow> bool" where
  "asynchronous l = (head_token l \<in> set [''async'', ''await''] \<or> contains ''await '' l)"

subsection \<open>What the text says on concurrency\<close>

text \<open>
  The text of a document mentions a word when one of its lines holds the word,
  whatever the case of its letters. \<open>lower\<close> maps the letters \<^verbatim>\<open>A\<close> to \<^verbatim>\<open>Z\<close> to \<^verbatim>\<open>a\<close> to \<^verbatim>\<open>z\<close>
  and leaves every other character as it is.
\<close>

fun lower :: "char \<Rightarrow> char" where
  "lower (Char b0 b1 b2 b3 b4 b5 b6 b7) =
    (if \<not> b7 \<and> b6 \<and> \<not> b5 \<and> (b0 \<or> b1 \<or> b2 \<or> b3 \<or> b4)
        \<and> \<not> (b4 \<and> b3 \<and> (b2 \<or> (b1 \<and> b0)))
     then Char b0 b1 b2 b3 b4 True b6 b7 else Char b0 b1 b2 b3 b4 b5 b6 b7)"

fun word_at :: "string \<Rightarrow> string \<Rightarrow> bool" where
  "word_at [] s = False"
| "word_at (a # w) [] = False"
| "word_at (a # w) (c # s) = (lower c = a \<and> starts_with w s)"

fun mentions :: "string list \<Rightarrow> string \<Rightarrow> bool" where
  "mentions ws [] = False"
| "mentions ws (c # s) =
    (if list_ex (\<lambda>w. word_at w (c # s)) ws then True else mentions ws s)"

text \<open>The ends of the words of a list that start with a given character.\<close>

definition tails_of :: "string list \<Rightarrow> char \<Rightarrow> string list" where
  "tails_of ws c = map tl (filter (\<lambda>w. w \<noteq> [] \<and> lower c = hd w) ws)"

text \<open>
  The words by which a text names the workers of a parallel run and the order in
  which work is done, and the words by which it would define how the work is
  scheduled, how the workers are synchronised, and what happens when a worker fails
  or the run is cancelled. The words are stems, written after their first letter in
  the case the documents use: \<^verbatim>\<open>schedul\<close> stands for schedule, scheduler and scheduling.
\<close>

definition worker_words :: "string list" where
  "worker_words = [''n_jobs'', ''process'', ''execution'', ''order'']"

definition concurrency_words :: "string list" where
  "concurrency_words =
    [''schedul'', ''synchron'', ''cancel'', ''fail'', ''lock'', ''thread'', ''timeout'',
     ''worker'', ''concurren'', ''parallel'', ''retry'', ''abort'', ''queue'', ''async'',
     ''await'', ''pool'', ''mutex'', ''semaphor'', ''deadlock'']"

subsection \<open>Flux points\<close>

text \<open>
  A line of code names flux points through the class \<^verbatim>\<open>FluxPoints\<close> (also in
  \<^verbatim>\<open>FluxPointsDataset\<close>) or through a \<^verbatim>\<open>flux_points\<close> attribute or file. A document fits
  flux points when it wraps them in a \<^verbatim>\<open>FluxPointsDataset\<close> and passes datasets to the
  \<^verbatim>\<open>run\<close> method of a fit.
\<close>

definition mentions_flux_points :: "string \<Rightarrow> bool" where
  "mentions_flux_points l = (contains ''FluxPoints'' l \<or> contains ''flux_points'' l)"

definition flux_point_lines :: "document \<Rightarrow> string list" where
  "flux_point_lines d = filter mentions_flux_points (lines_of d)"

definition fitted_flux_points :: "document \<Rightarrow> bool" where
  "fitted_flux_points d =
    (list_ex (contains ''FluxPointsDataset('') (lines_of d)
     \<and> list_ex (contains ''.run(datasets='') (lines_of d))"

text \<open>
  The names a document imports from \<^verbatim>\<open>gammapy.estimators\<close>, the module of the classes
  that compute flux points, light curves and maps from datasets.
\<close>

definition estimator_imports :: "document \<Rightarrow> string list" where
  "estimator_imports d =
    map snd (filter (\<lambda>(m, n). m = ''gammapy.estimators'') (imports_of d))"

section \<open>Library behaviour the tutorials describe\<close>

subsection \<open>The safe-mask maker\<close>

text \<open>
  Modelled from the spec: \<^verbatim>\<open>SafeMaskMaker.run\<close> is code of the library and is not
  among the supplied files; only its call sites in the Makers notebook are. The
  definition follows the notebook's description of it: "The \<^verbatim>\<open>SafeMaskMaker\<close> does not
  modify any data, but only defines the \<^verbatim>\<open>MapDataset.mask_safe\<close> attribute." A
  \<^verbatim>\<open>MapDataset\<close> bundles the counts, exposure, background, psf and edisp maps; the mask
  the maker's methods compute from a dataset and an observation is a parameter.
\<close>

record ('m, 'k) MapDataset =
  counts :: 'm
  exposure :: 'm
  background :: 'm
  psf :: 'm
  edisp :: 'm
  mask_safe :: "'k option"

definition SafeMaskMaker_run ::
  "(('m, 'k) MapDataset \<Rightarrow> 'o \<Rightarrow> 'k) \<Rightarrow> ('m, 'k) MapDataset \<Rightarrow> 'o \<Rightarrow> ('m, 'k) MapDataset" where
  "SafeMaskMaker_run make_mask dataset obs = dataset\<lparr>mask_safe := Some (make_mask dataset obs)\<rparr>"

subsection \<open>The fit statistic\<close>

text \<open>
  Modelled from the spec: \<^verbatim>\<open>Dataset.stat_sum\<close> is code of the library and is not among
  the supplied files. The definitions follow the how-to entry "Compute source
  significance": "To obtain the test statistic, call \<^verbatim>\<open>Dataset.stat_sum\<close> for the model
  corresponding to your two hypotheses [...] and take the difference. Note that in
  Gammapy, the fit statistic is defined as \<^verbatim>\<open>S = - 2 * log(L)\<close> for likelihood \<^verbatim>\<open>L\<close>, such
  that \<^verbatim>\<open>TS = S_0 - S_1\<close>". \<open>stat_sum\<close> takes the likelihood of the fitted model, \<open>TS\<close> the
  two values of the fit statistic, that of the null hypothesis first. Likelihoods and
  statistics are real numbers here, not floating point numbers.
\<close>

definition stat_sum :: "real \<Rightarrow> real" where
  "stat_sum L = - 2 * ln L"

definition TS :: "real \<Rightarrow> real \<Rightarrow> real" where
  "TS S0 S1 = S0 - S1"

subsection \<open>Selecting models\<close>

text \<open>
  Modelled from the spec: \<^verbatim>\<open>Models.select\<close>, \<^verbatim>\<open>Models.selection_mask\<close> and the indexing of
  a \<^verbatim>\<open>Models\<close> collection are code of the library and are not among the supplied
  files. The definitions follow the Modelling notebook: a model has a name and is
  attached to the datasets named in \<^verbatim>\<open>datasets_names\<close>, or to all datasets when none is
  given; \<^verbatim>\<open>selection_mask\<close> "can generate a boolean array that can be used for
  selection"; \<^verbatim>\<open>select\<close> "combines the different conditions with an AND operator"; the
  notebook joins two masks with \<^verbatim>\<open>|\<close> and indexes the collection with the result.
\<close>

record SkyModel =
  name :: string
  datasets_names :: "string list option"

datatype condition = Name_substring string | Datasets_names string

fun satisfies :: "SkyModel \<Rightarrow> condition \<Rightarrow> bool" where
  "satisfies m (Name_substring s) = contains s (name m)"
| "satisfies m (Datasets_names d) =
    (case datasets_names m of None \<Rightarrow> True | Some ds \<Rightarrow> d \<in> set ds)"

definition selection_mask :: "SkyModel list \<Rightarrow> condition \<Rightarrow> bool list" where
  "selection_mask models c = map (\<lambda>m. satisfies m c) models"

definition mask_and :: "bool list \<Rightarrow> bool list \<Rightarrow> bool list" where
  "mask_and a b = map (\<lambda>(x, y). x \<and> y) (zip a b)"

definition mask_or :: "bool list \<Rightarrow> bool list \<Rightarrow> bool list" where
  "mask_or a b = map (\<lambda>(x, y). x \<or> y) (zip a b)"

definition getitem_mask :: "'a list \<Rightarrow> bool list \<Rightarrow> 'a list" where
  "getitem_mask xs selection = map fst (filter snd (zip xs selection))"

definition select :: "SkyModel list \<Rightarrow> condition list \<Rightarrow> SkyModel list" where
  "select models conds =
    getitem_mask models
      (foldl mask_and (replicate (length models) True) (map (selection_mask models) conds))"

section \<open>Evaluating the source text\<close>

text \<open>
  A property of every line is checked cell by cell: first the documents are unfolded
  into their cells (\<open>docs\<close>), then each cell into its lines (\<open>cells\<close>). The
  congruence rules keep the simplifier from walking through a line again at every
  step of a scan.
\<close>

lemmas docs =
  supplied_cells_def documents_def howto_cells_def tutorials_def
  modelling_def makers_def sed_fitting_def howto_def entry_lines_def

lemmas cells =
  modelling_cell_1_def modelling_cell_2_def modelling_cell_3_def modelling_cell_5_def
  modelling_cell_7_def modelling_cell_8_def modelling_cell_9_def
  modelling_cell_13_def modelling_cell_14_def modelling_cell_15_def
  modelling_cell_16_def modelling_cell_17_def modelling_cell_18_def
  modelling_cell_20_def modelling_cell_21_def modelling_cell_22_def
  modelling_cell_24_def modelling_cell_26_def modelling_cell_28_def
  modelling_cell_29_def modelling_cell_31_def modelling_cell_32_def
  modelling_cell_34_def modelling_cell_35_def modelling_cell_37_def
  modelling_cell_40_def modelling_cell_42_def modelling_cell_43_def
  modelling_cell_45_def modelling_cell_47_def modelling_cell_50_def
  modelling_cell_51_def modelling_cell_52_def modelling_cell_54_def
  modelling_cell_56_def modelling_cell_58_def modelling_cell_59_def
  modelling_cell_60_def modelling_cell_61_def modelling_cell_62_def
  modelling_cell_64_def modelling_cell_66_def modelling_cell_67_def
  modelling_cell_69_def modelling_cell_70_def modelling_cell_71_def
  modelling_cell_73_def modelling_cell_76_def modelling_cell_77_def
  modelling_cell_78_def modelling_cell_79_def makers_cell_1_def makers_cell_3_def
  makers_cell_5_def makers_cell_7_def makers_cell_9_def makers_cell_11_def
  makers_cell_13_def makers_cell_15_def makers_cell_17_def makers_cell_19_def
  makers_cell_20_def sed_fitting_cell_2_def sed_fitting_cell_3_def
  sed_fitting_cell_5_def sed_fitting_cell_6_def sed_fitting_cell_8_def
  sed_fitting_cell_9_def sed_fitting_cell_10_def sed_fitting_cell_12_def
  sed_fitting_cell_14_def sed_fitting_cell_15_def sed_fitting_cell_17_def
  sed_fitting_cell_18_def sed_fitting_cell_20_def sed_fitting_cell_22_def
  sed_fitting_cell_24_def sed_fitting_cell_26_def sed_fitting_cell_28_def
  sed_fitting_cell_29_def sed_fitting_cell_30_def sed_fitting_cell_33_def
  howto_collapseNine_code_def howto_collapseNineteen_code_def

lemma list_all_concat: "list_all P (concat xss) = list_all (list_all P) xss"
  by (induction xss) simp_all

lemma list_ex_concat: "list_ex P (concat xss) = list_ex (list_ex P) xss"
  by (induction xss) simp_all

lemma starts_with_scan: "starts_with p s = starts_with p s"
  by (rule refl)

lemma contains_scan: "contains p s = contains p s"
  by (rule refl)

lemmas scan = starts_with_scan contains_scan


lemma filter_concat_cells: "filter P (concat xss) = concat (map (filter P) xss)"
  by (induction xss) simp_all

lemmas prose_cells =
  modelling_md_0_def modelling_md_4_def modelling_md_6_def modelling_md_10_def
  modelling_md_11_def modelling_md_12_def modelling_md_19_def modelling_md_23_def
  modelling_md_25_def modelling_md_27_def modelling_md_30_def modelling_md_33_def
  modelling_md_36_def modelling_md_38_def modelling_md_39_def modelling_md_41_def
  modelling_md_44_def modelling_md_46_def modelling_md_48_def modelling_md_49_def
  modelling_md_53_def modelling_md_55_def modelling_md_57_def modelling_md_63_def
  modelling_md_65_def modelling_md_68_def modelling_md_72_def modelling_md_74_def
  modelling_md_75_def makers_md_0_def makers_md_2_def makers_md_4_def makers_md_6_def
  makers_md_8_def makers_md_10_def makers_md_12_def makers_md_14_def makers_md_16_def
  makers_md_18_def sed_fitting_md_0_def sed_fitting_md_1_def sed_fitting_md_4_def
  sed_fitting_md_7_def sed_fitting_md_11_def sed_fitting_md_13_def sed_fitting_md_16_def
  sed_fitting_md_19_def sed_fitting_md_21_def sed_fitting_md_23_def sed_fitting_md_25_def
  sed_fitting_md_27_def sed_fitting_md_31_def sed_fitting_md_32_def howto_rst_0_def
  howto_rst_1_def howto_rst_2_def howto_rst_3_def howto_rst_4_def howto_rst_5_def
  howto_rst_6_def howto_rst_7_def howto_rst_8_def howto_rst_9_def howto_rst_10_def
  howto_rst_11_def howto_rst_12_def howto_rst_13_def howto_rst_14_def howto_rst_15_def
  howto_rst_16_def howto_rst_17_def howto_rst_18_def howto_rst_19_def

lemma lower_examples:
  "map lower ''AZ az @[ Hello_World 09'' = ''az az @[ hello_world 09''"
  by simp

lemma word_at_tails:
  "list_ex (\<lambda>w. word_at w (c # s)) ws = list_ex (\<lambda>t. starts_with t s) (tails_of ws c)"
proof (induction ws)
  case Nil
  then show ?case by (simp add: tails_of_def)
next
  case (Cons w ws)
  then show ?case by (cases w) (auto simp add: tails_of_def)
qed

lemma mentions_step:
  "mentions ws (c # s) =
    (if list_ex (\<lambda>t. starts_with t s) (tails_of ws c) then True else mentions ws s)"
  by (simp add: word_at_tails)

lemma mentions_scan: "mentions ws s = mentions ws s"
  by (rule refl)

lemma mentions_mono:
  "set ws \<subseteq> set vs \<Longrightarrow> mentions ws s \<Longrightarrow> mentions vs s"
  by (induction s) (auto simp add: list_ex_iff split: if_splits)

lemma filter_narrow:
  "(\<And>x. P x \<Longrightarrow> Q x) \<Longrightarrow> filter P xs = filter P (filter Q xs)"
  by (induction xs) auto

lemma list_all_narrow:
  "(\<And>x. P x \<Longrightarrow> Q x) \<Longrightarrow> list_all (\<lambda>x. \<not> P x) xs = list_all (\<lambda>x. \<not> P x) (filter Q xs)"
  by (induction xs) auto

lemma tails_of_vocabulary:
  "tails_of (worker_words @ concurrency_words) (Char b0 b1 b2 b3 b4 b5 b6 b7) =
    (if b7 then [] else if b6 then
      (if b4 then (if b3 then []
         else (if b2 then (if b1 then (if b0 then [''orker'']
               else [])
             else (if b0 then []
               else [''hread'', ''imeout'']))
           else (if b1 then (if b0 then [''chedul'', ''ynchron'', ''emaphor'']
               else [''etry''])
             else (if b0 then [''ueue'']
               else [''rocess'', ''arallel'', ''ool'']))))
       else (if b3 then (if b2 then (if b1 then (if b0 then [''rder'']
               else [''_jobs''])
             else (if b0 then [''utex'']
               else [''ock'']))
           else [])
         else (if b2 then (if b1 then (if b0 then []
               else [''ail''])
             else (if b0 then [''xecution'']
               else [''eadlock'']))
           else (if b1 then (if b0 then [''ancel'', ''oncurren'']
               else [])
             else (if b0 then [''bort'', ''sync'', ''wait'']
               else [])))))
     else [])"
  by (cases b0; cases b1; cases b2; cases b3; cases b4; cases b5; cases b6; cases b7)
    (simp_all add: tails_of_def worker_words_def concurrency_words_def)

lemma tails_of_worker_words:
  "tails_of worker_words (Char b0 b1 b2 b3 b4 b5 b6 b7) =
    (if b7 then [] else if b6 then
      (if b4 then (if b3 then []
         else (if b2 then []
           else (if b1 then []
             else (if b0 then []
               else [''rocess'']))))
       else (if b3 then (if b2 then (if b1 then (if b0 then [''rder'']
               else [''_jobs''])
             else [])
           else [])
         else (if b2 then (if b1 then []
             else (if b0 then [''xecution'']
               else []))
           else [])))
     else [])"
  by (cases b0; cases b1; cases b2; cases b3; cases b4; cases b5; cases b6; cases b7)
    (simp_all add: tails_of_def worker_words_def)

lemma tails_of_concurrency_words:
  "tails_of concurrency_words (Char b0 b1 b2 b3 b4 b5 b6 b7) =
    (if b7 then [] else if b6 then
      (if b4 then (if b3 then []
         else (if b2 then (if b1 then (if b0 then [''orker'']
               else [])
             else (if b0 then []
               else [''hread'', ''imeout'']))
           else (if b1 then (if b0 then [''chedul'', ''ynchron'', ''emaphor'']
               else [''etry''])
             else (if b0 then [''ueue'']
               else [''arallel'', ''ool'']))))
       else (if b3 then (if b2 then (if b1 then []
             else (if b0 then [''utex'']
               else [''ock'']))
           else [])
         else (if b2 then (if b1 then (if b0 then []
               else [''ail''])
             else (if b0 then []
               else [''eadlock'']))
           else (if b1 then (if b0 then [''ancel'', ''oncurren'']
               else [])
             else (if b0 then [''bort'', ''sync'', ''wait'']
               else [])))))
     else [])"
  by (cases b0; cases b1; cases b2; cases b3; cases b4; cases b5; cases b6; cases b7)
    (simp_all add: tails_of_def concurrency_words_def)
section \<open>Statements of the supplied code\<close>

text \<open>
  No line of the supplied code starts a function or class definition, an error
  handler, or an asynchronous statement: the first token of every line is compared
  with the keywords that start one.
\<close>

lemma statement_heads:
  "list_all
     (\<lambda>k. k \<notin> set [''def'', ''class'', ''async'', ''await'', ''try'', ''except'',
                     ''finally'', ''raise'', ''assert''])
     (map head_token supplied_code)"
  unfolding supplied_code_def map_concat list_all_concat
  apply (simp add: docs)
  apply (simp add: cells head_token_def lstrip_def)
  done

lemma no_lambda:
  "list_all (\<lambda>l. \<not> contains ''lambda '' l \<and> \<not> contains ''lambda:'' l) supplied_code"
  unfolding supplied_code_def list_all_concat
  apply (simp add: docs)
  unfolding cells append.simps
  apply (simp cong: scan)
  done

lemma no_local_definition: "list_all (\<lambda>l. \<not> defines_locally l) supplied_code"
  using statement_heads no_lambda by (auto simp add: list_all_iff defines_locally_def)

text \<open>
  C5: no code sample of the supplied files contains error handling. Every line of
  every code block of the how-to page and of every code cell of the notebooks is
  free of the statements that handle, raise or check for a failure
  (\<^verbatim>\<open>try\<close>, \<^verbatim>\<open>except\<close>, \<^verbatim>\<open>finally\<close>, \<^verbatim>\<open>raise\<close>, \<^verbatim>\<open>assert\<close>).
\<close>

theorem no_error_handling: "list_all (\<lambda>l. \<not> handles_errors l) supplied_code"
  using statement_heads by (auto simp add: list_all_iff handles_errors_def)

text \<open>
  C7: every supplied file is the reStructuredText page or a Jupyter notebook, and no
  line of their code starts the definition of a function or of a class or holds a
  lambda expression.
\<close>

theorem documentation_and_notebooks_only:
  "list_all (\<lambda>f. ends_with ''.rst'' f \<or> ends_with ''.ipynb'' f) supplied_files
   \<and> list_all (\<lambda>l. \<not> defines_locally l) supplied_code"
proof -
  have "list_all (\<lambda>f. ends_with ''.rst'' f \<or> ends_with ''.ipynb'' f) supplied_files"
    by (simp add: supplied_files_def tutorials_def modelling_def makers_def
        sed_fitting_def ends_with_def)
  then show ?thesis using no_local_definition by simp
qed

section \<open>The imports of each document\<close>

text \<open>
  The names each document imports, with the module each comes from, in the order of
  the source.
\<close>

lemma imports_of_Modelling:
  "imports_of Modelling =
    [(''matplotlib.pyplot'', ''matplotlib.pyplot''), (''astropy'', ''units''),
     (''astropy.coordinates'', ''SkyCoord''), (''gammapy.maps'', ''Map''),
     (''gammapy.datasets'', ''MapDataset''), (''gammapy.datasets'', ''Datasets''),
     (''gammapy.modeling.models'', ''PointSpatialModel''),
     (''gammapy.modeling.models'', ''SkyModel''),
     (''gammapy.modeling.models'', ''TemplateSpatialModel''),
     (''gammapy.modeling.models'', ''PowerLawNormSpectralModel''),
     (''gammapy.modeling.models'', ''Models''),
     (''gammapy.modeling.models'', ''create_fermi_isotropic_diffuse_model''),
     (''gammapy.modeling.models'', ''FoVBackgroundModel''),
     (''regions'', ''CircleSkyRegion''),
     (''gammapy.modeling.models'', ''GaussianSpatialModel''),
     (''gammapy.catalog'', ''SourceCatalog3FHL'')]"
  unfolding imports_of_def imported_def
  apply (simp add: docs)
  apply (simp add: cells is_import_def lstrip_def words_def)
  done

lemma imports_of_Makers:
  "imports_of Makers =
    [(''gammapy.makers'', ''MapDatasetMaker''), (''gammapy.makers'', ''FoVBackgroundMaker''),
     (''gammapy.makers'', ''SafeMaskMaker''), (''gammapy.makers'', ''SpectrumDatasetMaker''),
     (''gammapy.makers'', ''ReflectedRegionsBackgroundMaker''),
     (''gammapy.makers'', ''DatasetsMaker''), (''gammapy.datasets'', ''MapDataset''),
     (''gammapy.datasets'', ''SpectrumDataset''), (''gammapy.datasets'', ''Datasets''),
     (''gammapy.data'', ''DataStore''), (''gammapy.maps'', ''MapAxis''),
     (''gammapy.maps'', ''WcsGeom''), (''gammapy.maps'', ''RegionGeom''),
     (''regions'', ''CircleSkyRegion''), (''astropy'', ''units''), (''numpy'', ''numpy'')]"
  unfolding imports_of_def imported_def
  apply (simp add: docs)
  apply (simp add: cells is_import_def lstrip_def words_def)
  done

lemma imports_of_SedFitting:
  "imports_of SedFitting =
    [(''matplotlib.pyplot'', ''matplotlib.pyplot''), (''astropy'', ''units''),
     (''gammapy.modeling.models'', ''PowerLawSpectralModel''),
     (''gammapy.modeling.models'', ''ExpCutoffPowerLawSpectralModel''),
     (''gammapy.modeling.models'', ''LogParabolaSpectralModel''),
     (''gammapy.modeling.models'', ''SkyModel''), (''gammapy.estimators'', ''FluxPoints''),
     (''gammapy.datasets'', ''FluxPointsDataset''), (''gammapy.datasets'', ''Datasets''),
     (''gammapy.catalog'', ''CATALOG_REGISTRY''), (''gammapy.modeling'', ''Fit'')]"
  unfolding imports_of_def imported_def
  apply (simp add: docs)
  apply (simp add: cells is_import_def lstrip_def words_def)
  done

lemma imports_of_HowTo:
  "imports_of HowTo =
    [(''gammapy.estimators'', ''FluxPoints''), (''astropy'', ''units''),
     (''astropy.io.fits.verify'', ''VerifyWarning''), (''warnings'', ''warnings'')]"
  unfolding imports_of_def imported_def
  apply (simp add: docs)
  apply (simp add: cells is_import_def lstrip_def words_def)
  done

section \<open>The operations are calls into the library\<close>

lemma operations_in_cells:
  "list_all (\<lambda>op. op_cell op \<in> set (cells_of (op_doc op))) shown_operations"
  by (simp add: shown_operations_def docs)

lemma operations_are_single_calls:
  "list_all
     (\<lambda>op. op_line op \<in> set (op_cell op) \<and> contains (call_text op) (op_line op)
        \<and> single_call (op_line op) \<and> package (op_module op) = ''gammapy''
        \<and> public_name (op_method op))
     shown_operations"
  by (simp add: shown_operations_def call_text_def single_call_def ends_with_def
      package_def public_name_def makers_cell_9_def makers_cell_3_def makers_cell_11_def
      makers_cell_13_def sed_fitting_cell_15_def modelling_cell_76_def modelling_cell_78_def)

lemma operations_bound:
  "list_all (\<lambda>op. bound_to (op_doc op) (op_receiver op) (op_class op)) shown_operations"
  unfolding shown_operations_def bound_to_def lines_of_def list_ex_concat
  apply (simp add: docs)
  apply (simp add: cells)
  done

lemma operations_imported:
  "list_all (\<lambda>op. (op_module op, op_class op) \<in> set (imports_of (op_doc op)))
     shown_operations"
  by (simp add: shown_operations_def imports_of_Modelling imports_of_Makers
      imports_of_SedFitting)

text \<open>
  C1: each operation the spec lists (reading a path into a data store, creating an
  empty map dataset from a geometry, running a maker, a safe-mask maker and a
  background maker, running a fit on flux points, writing and reading a model
  collection) appears as a line of a code cell that is a single call of a public
  method, on a class imported from the gammapy package or on an instance of one; and
  no line of the supplied code defines a function or a class, so none of them is
  implemented in the supplied files.
\<close>

theorem operations_are_library_calls:
  "list_all library_call shown_operations
   \<and> list_all (\<lambda>l. \<not> defines_locally l) supplied_code"
  using operations_in_cells operations_are_single_calls operations_bound
    operations_imported no_local_definition
  by (auto simp add: list_all_iff library_call_def)

section \<open>Suppressing a warning\<close>

lemma warning_entries_eval:
  "warning_entries =
    [\<lparr>entry_id = ''collapseNineteen'', entry_title = ''Suppress warnings'',
      entry_code = [howto_collapseNineteen_code]\<rparr>]"
  unfolding warning_entries_def howto_def
  by (simp add: entry_lines_def suppresses_warnings_def howto_collapseNine_code_def
      howto_collapseNineteen_code_def)

text \<open>
  C4: exactly one entry of the how-to page has code that installs a warning filter,
  the entry "Suppress warnings". Its code has one such line; the line stands in the
  block of \<^verbatim>\<open>with warnings.catch_warnings():\<close>, so the filter ends with the block, and
  the category it ignores is \<^verbatim>\<open>VerifyWarning\<close>, which the entry imports from the astropy
  package.
\<close>

theorem one_local_warning_filter:
  "map entry_title warning_entries = [''Suppress warnings'']
   \<and> list_all
        (\<lambda>e. filter suppresses_warnings (entry_lines e) =
                [''    warnings.simplefilter('' @ [CHR 0x27] @ ''ignore'' @ [CHR 0x27]
                  @ '', VerifyWarning)'']
             \<and> list_all
                  (\<lambda>l. l \<in> set (block_of ''with warnings.catch_warnings():'' (entry_lines e))
                     \<and> ends_with '', VerifyWarning)'' l)
                  (filter suppresses_warnings (entry_lines e))
             \<and> map (\<lambda>(m, n). (package m, n))
                  (filter (\<lambda>(m, n). n = ''VerifyWarning'') (imported (entry_lines e)))
                 = [(''astropy'', ''VerifyWarning'')])
        warning_entries"
  unfolding warning_entries_eval
  by (simp add: entry_lines_def howto_collapseNineteen_code_def suppresses_warnings_def
      block_of_def ends_with_def imported_def is_import_def lstrip_def words_def package_def)

section \<open>File paths\<close>





section \<open>Concurrency\<close>

lemma n_jobs_lines:
  "filter (contains ''n_jobs'') (lines_of Modelling) = []
   \<and> filter (contains ''n_jobs'') (lines_of Makers) =
      [''datasets_maker = DatasetsMaker(makers, stack_datasets=False, n_jobs=1)'']
   \<and> filter (contains ''n_jobs'') (lines_of SedFitting) = []
   \<and> filter (contains ''n_jobs'') (lines_of HowTo) = []"
  unfolding lines_of_def filter_concat_cells
  apply (simp add: docs)
  unfolding cells append.simps
  apply (simp cong: scan)
  done

lemma no_await: "list_all (\<lambda>l. \<not> contains ''await '' l) supplied_code"
  unfolding supplied_code_def list_all_concat
  apply (simp add: docs)
  unfolding cells append.simps
  apply (simp cong: scan)
  done

lemmas vocabulary = mentions_step tails_of_vocabulary

lemma text_vocabulary_Modelling:
  \<open>filter (mentions (worker_words @ concurrency_words)) (prose_lines Modelling) =
    []\<close>
  unfolding prose_lines_def filter_concat_cells
  apply (simp only: text_of.simps list.map)
  unfolding prose_cells append.simps
  apply (simp add: vocabulary del: mentions.simps(2) cong: mentions_scan starts_with_scan)
  done

lemma text_vocabulary_Makers:
  \<open>filter (mentions (worker_words @ concurrency_words)) (prose_lines Makers) =
    [last makers_md_16]\<close>
  unfolding prose_lines_def filter_concat_cells
  apply (simp only: text_of.simps list.map)
  unfolding prose_cells append.simps
  apply (simp add: vocabulary del: mentions.simps(2) cong: mentions_scan starts_with_scan)
  done

lemma text_vocabulary_SedFitting:
  \<open>filter (mentions (worker_words @ concurrency_words)) (prose_lines SedFitting) =
    []\<close>
  unfolding prose_lines_def filter_concat_cells
  apply (simp only: text_of.simps list.map)
  unfolding prose_cells append.simps
  apply (simp add: vocabulary del: mentions.simps(2) cong: mentions_scan starts_with_scan)
  done

lemma text_vocabulary_HowTo:
  \<open>filter (mentions (worker_words @ concurrency_words)) (prose_lines HowTo) =
    []\<close>
  unfolding prose_lines_def filter_concat_cells
  apply (simp only: text_of.simps list.map)
  unfolding prose_cells append.simps
  apply (simp add: vocabulary del: mentions.simps(2) cong: mentions_scan starts_with_scan)
  done

lemma code_vocabulary_Modelling:
  \<open>filter (mentions (worker_words @ concurrency_words)) (lines_of Modelling) =
    []\<close>
  unfolding lines_of_def filter_concat_cells
  apply (simp add: docs)
  unfolding cells append.simps
  apply (simp add: vocabulary del: mentions.simps(2) cong: mentions_scan starts_with_scan)
  done

lemma code_vocabulary_Makers:
  \<open>filter (mentions (worker_words @ concurrency_words)) (lines_of Makers) =
    [''makers = [dataset_maker, safe_mask_maker, fov_bkg_maker] #the order matter'',
     ''datasets_maker = DatasetsMaker(makers, stack_datasets=False, n_jobs=1)'']\<close>
  unfolding lines_of_def filter_concat_cells
  apply (simp add: docs)
  unfolding cells append.simps
  apply (simp add: vocabulary del: mentions.simps(2) cong: mentions_scan starts_with_scan)
  done

lemma code_vocabulary_SedFitting:
  \<open>filter (mentions (worker_words @ concurrency_words)) (lines_of SedFitting) =
    []\<close>
  unfolding lines_of_def filter_concat_cells
  apply (simp add: docs)
  unfolding cells append.simps
  apply (simp add: vocabulary del: mentions.simps(2) cong: mentions_scan starts_with_scan)
  done

lemma code_vocabulary_HowTo:
  \<open>filter (mentions (worker_words @ concurrency_words)) (lines_of HowTo) =
    []\<close>
  unfolding lines_of_def filter_concat_cells
  apply (simp add: docs)
  unfolding cells append.simps
  apply (simp add: vocabulary del: mentions.simps(2) cong: mentions_scan starts_with_scan)
  done

lemma worker_words_of:
  "filter (mentions (worker_words @ concurrency_words)) xs = ys \<Longrightarrow>
    filter (mentions worker_words) xs = filter (mentions worker_words) ys"
  by (subst filter_narrow [where Q = "mentions (worker_words @ concurrency_words)"])
    (erule mentions_mono [rotated], simp_all)

lemma concurrency_words_of:
  "filter (mentions (worker_words @ concurrency_words)) xs = ys \<Longrightarrow>
    list_all (\<lambda>l. \<not> mentions concurrency_words l) xs =
      list_all (\<lambda>l. \<not> mentions concurrency_words l) ys"
  by (subst list_all_narrow [where Q = "mentions (worker_words @ concurrency_words)"])
    (erule mentions_mono [rotated], simp_all)

lemmas text_worker_words_of =
  worker_words_of [OF text_vocabulary_Modelling] worker_words_of [OF text_vocabulary_Makers]
  worker_words_of [OF text_vocabulary_SedFitting] worker_words_of [OF text_vocabulary_HowTo]

lemmas code_worker_words_of =
  worker_words_of [OF code_vocabulary_Modelling] worker_words_of [OF code_vocabulary_Makers]
  worker_words_of [OF code_vocabulary_SedFitting] worker_words_of [OF code_vocabulary_HowTo]

lemmas concurrency_words_of_documents =
  concurrency_words_of [OF text_vocabulary_Modelling]
  concurrency_words_of [OF text_vocabulary_Makers]
  concurrency_words_of [OF text_vocabulary_SedFitting]
  concurrency_words_of [OF text_vocabulary_HowTo]
  concurrency_words_of [OF code_vocabulary_Modelling]
  concurrency_words_of [OF code_vocabulary_Makers]
  concurrency_words_of [OF code_vocabulary_SedFitting]
  concurrency_words_of [OF code_vocabulary_HowTo]

lemma makers_note:
  \<open>last makers_md_16 =
    ''The data reduction loop shown above can be done throught the `DatasetsMaker` class ''
      @ ''that take as argument a list of makers. **Note that the order of the makers list is ''
      @ ''important as it determines their execution order.** Moreover the `stack_datasets` ''
      @ ''option offers the possibily to stack or not the output datasets, and the `n_jobs` ''
      @ ''option allow to use multiple processes on run.''\<close>
  by (simp add: makers_md_16_def)

lemma makers_note_words:
  \<open>mentions worker_words (last makers_md_16)
   \<and> \<not> mentions concurrency_words (last makers_md_16)\<close>
  unfolding makers_note append.simps
  by (simp add: mentions_step tails_of_worker_words tails_of_concurrency_words
      del: mentions.simps(2) cong: mentions_scan starts_with_scan)

lemma makers_lines_words:
  \<open>mentions worker_words ''makers = [dataset_maker, safe_mask_maker, fov_bkg_maker] #the order matter''
   \<and> \<not> mentions concurrency_words ''makers = [dataset_maker, safe_mask_maker, fov_bkg_maker] #the order matter''
   \<and> mentions worker_words ''datasets_maker = DatasetsMaker(makers, stack_datasets=False, n_jobs=1)''
   \<and> \<not> mentions concurrency_words ''datasets_maker = DatasetsMaker(makers, stack_datasets=False, n_jobs=1)''\<close>
  by (simp add: mentions_step tails_of_worker_words tails_of_concurrency_words
      del: mentions.simps(2) cong: mentions_scan starts_with_scan)

lemma text_worker_words:
  "map (\<lambda>d. filter (mentions worker_words) (prose_lines d)) documents =
    [[], [last makers_md_16], [], []]"
  by (simp add: documents_def text_worker_words_of makers_note_words del: mentions.simps)

lemma code_worker_words:
  \<open>map (\<lambda>d. filter (mentions worker_words) (lines_of d)) documents =
    [[], [''makers = [dataset_maker, safe_mask_maker, fov_bkg_maker] #the order matter'',
          ''datasets_maker = DatasetsMaker(makers, stack_datasets=False, n_jobs=1)''], [], []]\<close>
  by (simp add: documents_def code_worker_words_of makers_lines_words del: mentions.simps)

lemma no_concurrency_words:
  "list_all
     (\<lambda>d. list_all (\<lambda>l. \<not> mentions concurrency_words l) (prose_lines d @ lines_of d))
     documents"
  by (simp add: documents_def concurrency_words_of_documents makers_note_words
      makers_lines_words del: mentions.simps)

text \<open>
  C3: no document imports a package that starts threads, processes or an event loop,
  and no line of code is an asynchronous statement or awaits; the \<^verbatim>\<open>n_jobs\<close> argument
  occurs in one line of code of one document, the Makers notebook, as a keyword
  argument (\<^verbatim>\<open>n_jobs=1\<close>) in the call of \<^verbatim>\<open>DatasetsMaker\<close>, a class imported from
  \<^verbatim>\<open>gammapy.makers\<close>. In the text of the documents one line names \<^verbatim>\<open>n_jobs\<close>, processes or
  an order of execution, the note of the Makers notebook on \<^verbatim>\<open>DatasetsMaker\<close>: it says
  that the makers run in the order of the list and that \<^verbatim>\<open>n_jobs\<close> allows to use multiple
  processes, and nothing more; in the code the same words occur in the two lines that
  build the list of makers and the \<^verbatim>\<open>DatasetsMaker\<close>. No line of text or of code holds a
  word on scheduling, synchronisation, failure or cancellation.
\<close>

theorem single_threaded_scripting:
  \<open>list_all (\<lambda>d. \<not> uses_concurrency d) documents
   \<and> list_all (\<lambda>l. \<not> asynchronous l) supplied_code
   \<and> map (\<lambda>d. filter (contains ''n_jobs'') (lines_of d)) documents =
      [[], [''datasets_maker = DatasetsMaker(makers, stack_datasets=False, n_jobs=1)''],
       [], []]
   \<and> contains ''DatasetsMaker(''
        ''datasets_maker = DatasetsMaker(makers, stack_datasets=False, n_jobs=1)''
   \<and> contains '', n_jobs=1)''
        ''datasets_maker = DatasetsMaker(makers, stack_datasets=False, n_jobs=1)''
   \<and> (''gammapy.makers'', ''DatasetsMaker'') \<in> set (imports_of Makers)
   \<and> map (\<lambda>d. filter (mentions worker_words) (prose_lines d)) documents =
      [[], [last makers_md_16], [], []]
   \<and> last makers_md_16 =
    ''The data reduction loop shown above can be done throught the `DatasetsMaker` class ''
      @ ''that take as argument a list of makers. **Note that the order of the makers list is ''
      @ ''important as it determines their execution order.** Moreover the `stack_datasets` ''
      @ ''option offers the possibily to stack or not the output datasets, and the `n_jobs` ''
      @ ''option allow to use multiple processes on run.''
   \<and> map (\<lambda>d. filter (mentions worker_words) (lines_of d)) documents =
      [[], [''makers = [dataset_maker, safe_mask_maker, fov_bkg_maker] #the order matter'',
            ''datasets_maker = DatasetsMaker(makers, stack_datasets=False, n_jobs=1)''], [], []]
   \<and> list_all
       (\<lambda>d. list_all (\<lambda>l. \<not> mentions concurrency_words l) (prose_lines d @ lines_of d))
       documents\<close>
proof -
  have "list_all (\<lambda>d. \<not> uses_concurrency d) documents"
    by (simp add: documents_def uses_concurrency_def concurrency_packages_def
        imports_of_Modelling imports_of_Makers imports_of_SedFitting imports_of_HowTo
        package_def)
  moreover have "list_all (\<lambda>l. \<not> asynchronous l) supplied_code"
    using statement_heads no_await
    by (auto simp add: list_all_iff asynchronous_def)
  moreover have "map (\<lambda>d. filter (contains ''n_jobs'') (lines_of d)) documents =
      [[], [''datasets_maker = DatasetsMaker(makers, stack_datasets=False, n_jobs=1)''],
       [], []]"
    by (simp add: documents_def n_jobs_lines)
  moreover have "contains ''DatasetsMaker(''
        ''datasets_maker = DatasetsMaker(makers, stack_datasets=False, n_jobs=1)''"
    by simp
  moreover have "contains '', n_jobs=1)''
        ''datasets_maker = DatasetsMaker(makers, stack_datasets=False, n_jobs=1)''"
    by simp
  moreover have "(''gammapy.makers'', ''DatasetsMaker'') \<in> set (imports_of Makers)"
    by (simp add: imports_of_Makers)
  moreover note text_worker_words makers_note code_worker_words no_concurrency_words
  ultimately show ?thesis by blast
qed

section \<open>Flux points\<close>

lemma flux_point_lines_of_documents:
  \<open>flux_point_lines Modelling = []
   \<and> flux_point_lines Makers = []
   \<and> flux_point_lines SedFitting =
      [''from gammapy.estimators import FluxPoints'',
       ''from gammapy.datasets import FluxPointsDataset, Datasets'',
       ''dataset_gammacat = FluxPointsDataset('',
       ''    data=source_gammacat.flux_points, name="gammacat"'',
       ''dataset_3fgl = FluxPointsDataset('',
       ''    data=source_fermi_3fgl.flux_points, name="3fgl"'',
       ''dataset_3fhl = FluxPointsDataset('',
       ''    data=source_fermi_3fhl.flux_points, name="3fhl"'']
   \<and> flux_point_lines HowTo =
      [''from gammapy.estimators import FluxPoints'',
       ''filename = "$GAMMAPY_DATA/hawc_crab/HAWC19_flux_points.fits"'',
       ''fp = FluxPoints.read(filename)'']\<close>
  unfolding flux_point_lines_def lines_of_def filter_concat_cells
  apply (simp add: docs)
  unfolding cells append.simps
  apply (simp add: mentions_flux_points_def cong: scan)
  done

lemma fitted_flux_points_SedFitting: "fitted_flux_points SedFitting"
  unfolding fitted_flux_points_def lines_of_def list_ex_concat
  apply (simp add: docs)
  unfolding cells append.simps
  apply (simp cong: scan)
  done

lemma howto_has_no_fit:
  "\<not> list_ex (contains ''FluxPointsDataset'') (lines_of HowTo)
   \<and> \<not> list_ex (contains ''.run('') (lines_of HowTo)
   \<and> list_ex (starts_with ''fp.plot('') (lines_of HowTo)"
  unfolding lines_of_def list_ex_concat
  apply (simp add: docs)
  unfolding cells append.simps
  apply (simp cong: scan)
  done

lemma howto_not_fitted: "\<not> fitted_flux_points HowTo"
  unfolding fitted_flux_points_def lines_of_def list_ex_concat
  apply (simp add: docs)
  unfolding cells append.simps
  apply (simp cong: scan)
  done

text \<open>
  C6, as stated, fails: the how-to entry "Choose units for plotting" reads flux points
  from a file and plots them; its code has no \<^verbatim>\<open>FluxPointsDataset\<close> and no call of a
  \<^verbatim>\<open>run\<close> method, so these flux points are not passed to a fit.
\<close>

theorem howto_flux_points_are_plotted:
  "''fp = FluxPoints.read(filename)'' \<in> set (flux_point_lines HowTo)
   \<and> \<not> list_ex (contains ''FluxPointsDataset'') (lines_of HowTo)
   \<and> \<not> list_ex (contains ''.run('') (lines_of HowTo)
   \<and> \<not> fitted_flux_points HowTo"
  using howto_not_fitted howto_has_no_fit by (simp add: flux_point_lines_of_documents)

text \<open>
  C6, amended: flux points appear in the code of two documents only. In the flux
  point fitting notebook each flux point table is the \<^verbatim>\<open>flux_points\<close> attribute of a
  catalog source, given as the \<^verbatim>\<open>data\<close> argument of a \<^verbatim>\<open>FluxPointsDataset\<close>; the three
  datasets are collected and passed to the \<^verbatim>\<open>run\<close> method of a fit. In the how-to page
  they are read from a file with \<^verbatim>\<open>FluxPoints.read\<close> and plotted, without a dataset or a
  fit. No document imports anything but the \<^verbatim>\<open>FluxPoints\<close> container from the module of
  the estimators, so none computes flux points.
\<close>

theorem flux_points_are_loaded_inputs:
  \<open>map (\<lambda>d. flux_point_lines d = []) documents = [True, True, False, False]
   \<and> fitted_flux_points SedFitting
   \<and> sed_fitting_cell_8 \<in> set (cells_of SedFitting)
   \<and> block_of ''dataset_gammacat = FluxPointsDataset('' sed_fitting_cell_8 =
      [''    data=source_gammacat.flux_points, name="gammacat"'']
   \<and> sed_fitting_cell_9 \<in> set (cells_of SedFitting)
   \<and> block_of ''dataset_3fgl = FluxPointsDataset('' sed_fitting_cell_9 =
      [''    data=source_fermi_3fgl.flux_points, name="3fgl"'']
   \<and> sed_fitting_cell_10 \<in> set (cells_of SedFitting)
   \<and> block_of ''dataset_3fhl = FluxPointsDataset('' sed_fitting_cell_10 =
      [''    data=source_fermi_3fhl.flux_points, name="3fhl"'']
   \<and> sed_fitting_cell_14 \<in> set (cells_of SedFitting)
   \<and> ''datasets = Datasets([dataset_gammacat, dataset_3fgl, dataset_3fhl])''
        \<in> set sed_fitting_cell_14
   \<and> sed_fitting_cell_15 \<in> set (cells_of SedFitting)
   \<and> ''result_pwl = fitter.run(datasets=datasets)'' \<in> set sed_fitting_cell_15
   \<and> \<not> fitted_flux_points HowTo
   \<and> ''fp = FluxPoints.read(filename)'' \<in> set (flux_point_lines HowTo)
   \<and> list_ex (starts_with ''fp.plot('') (lines_of HowTo)
   \<and> map estimator_imports documents = [[], [], [''FluxPoints''], [''FluxPoints'']]\<close>
proof -
  have cells_in: "sed_fitting_cell_8 \<in> set (cells_of SedFitting)"
    "sed_fitting_cell_9 \<in> set (cells_of SedFitting)"
    "sed_fitting_cell_10 \<in> set (cells_of SedFitting)"
    "sed_fitting_cell_14 \<in> set (cells_of SedFitting)"
    "sed_fitting_cell_15 \<in> set (cells_of SedFitting)"
    by (simp_all add: sed_fitting_def)
  have blocks:
    \<open>block_of ''dataset_gammacat = FluxPointsDataset('' sed_fitting_cell_8 =
      [''    data=source_gammacat.flux_points, name="gammacat"'']\<close>
    \<open>block_of ''dataset_3fgl = FluxPointsDataset('' sed_fitting_cell_9 =
      [''    data=source_fermi_3fgl.flux_points, name="3fgl"'']\<close>
    \<open>block_of ''dataset_3fhl = FluxPointsDataset('' sed_fitting_cell_10 =
      [''    data=source_fermi_3fhl.flux_points, name="3fhl"'']\<close>
    by (simp_all add: block_of_def sed_fitting_cell_8_def sed_fitting_cell_9_def
        sed_fitting_cell_10_def)
  have passed:
    "''datasets = Datasets([dataset_gammacat, dataset_3fgl, dataset_3fhl])''
        \<in> set sed_fitting_cell_14"
    "''result_pwl = fitter.run(datasets=datasets)'' \<in> set sed_fitting_cell_15"
    by (simp_all add: sed_fitting_cell_14_def sed_fitting_cell_15_def)
  have appear: "map (\<lambda>d. flux_point_lines d = []) documents = [True, True, False, False]"
    by (simp add: documents_def flux_point_lines_of_documents)
  have read: "''fp = FluxPoints.read(filename)'' \<in> set (flux_point_lines HowTo)"
    by (simp add: flux_point_lines_of_documents)
  have estimators:
    "map estimator_imports documents = [[], [], [''FluxPoints''], [''FluxPoints'']]"
    by (simp add: documents_def estimator_imports_def imports_of_Modelling imports_of_Makers
        imports_of_SedFitting imports_of_HowTo)
  show ?thesis
    using cells_in blocks passed appear read estimators fitted_flux_points_SedFitting
      howto_has_no_fit howto_not_fitted
    by simp
qed

section \<open>The safe-mask maker leaves the data alone\<close>

text \<open>
  C8: for every map dataset and observation, running the safe-mask maker leaves the
  counts, exposure, background, psf and edisp maps of the dataset as they were, and
  defines its \<open>mask_safe\<close>.
\<close>

theorem SafeMaskMaker_run_frame:
  "counts (SafeMaskMaker_run make_mask dataset obs) = counts dataset
   \<and> exposure (SafeMaskMaker_run make_mask dataset obs) = exposure dataset
   \<and> background (SafeMaskMaker_run make_mask dataset obs) = background dataset
   \<and> psf (SafeMaskMaker_run make_mask dataset obs) = psf dataset
   \<and> edisp (SafeMaskMaker_run make_mask dataset obs) = edisp dataset
   \<and> mask_safe (SafeMaskMaker_run make_mask dataset obs) = Some (make_mask dataset obs)"
  by (simp add: SafeMaskMaker_run_def)

section \<open>The test statistic is a difference of fit statistics\<close>

text \<open>
  C9: the fit statistic that \<open>stat_sum\<close> returns for a model of likelihood \<open>L\<close> is
  \<open>S = - 2 * ln L\<close>, and the test statistic of two hypotheses is the difference
  \<open>S_0 - S_1\<close> of the two values of the fit statistic; with this fit statistic it is
  twice the difference of the two log-likelihoods, the constant \<open>- 2\<close> of the
  definition being what fixes the factor and the sign.
\<close>

theorem stat_sum_test_statistic:
  "stat_sum L = - 2 * ln L
   \<and> TS (stat_sum L0) (stat_sum L1) = stat_sum L0 - stat_sum L1
   \<and> TS (stat_sum L0) (stat_sum L1) = 2 * (ln L1 - ln L0)"
  by (simp add: stat_sum_def TS_def)

section \<open>Selecting models with several conditions\<close>

lemma getitem_mask_map: "getitem_mask xs (map P xs) = filter P xs"
  by (induction xs) (simp_all add: getitem_mask_def)

lemma mask_and_map: "mask_and (map P xs) (map Q xs) = map (\<lambda>x. P x \<and> Q x) xs"
  by (induction xs) (simp_all add: mask_and_def)

lemma mask_or_map: "mask_or (map P xs) (map Q xs) = map (\<lambda>x. P x \<or> Q x) xs"
  by (induction xs) (simp_all add: mask_or_def)

lemma foldl_mask_and:
  "foldl mask_and (map P ms) (map (selection_mask ms) conds) =
    map (\<lambda>m. P m \<and> (\<forall>c\<in>set conds. satisfies m c)) ms"
proof (induction conds arbitrary: P)
  case Nil
  then show ?case by simp
next
  case (Cons c conds)
  have "foldl mask_and (map P ms) (map (selection_mask ms) (c # conds)) =
      foldl mask_and (map (\<lambda>m. P m \<and> satisfies m c) ms) (map (selection_mask ms) conds)"
    by (simp add: selection_mask_def mask_and_map)
  also have "\<dots> = map (\<lambda>m. (P m \<and> satisfies m c) \<and> (\<forall>c\<in>set conds. satisfies m c)) ms"
    by (rule Cons.IH)
  finally show ?case by simp
qed

text \<open>
  C10: \<open>select\<close> with several conditions returns exactly the models that satisfy all
  of them, in the order of the collection; indexing the collection with the
  elementwise disjunction of the masks of two conditions returns exactly the models
  that satisfy one of them.
\<close>

theorem select_and_mask_or:
  "select ms conds = filter (\<lambda>m. \<forall>c\<in>set conds. satisfies m c) ms
   \<and> getitem_mask ms (mask_or (selection_mask ms c1) (selection_mask ms c2)) =
      filter (\<lambda>m. satisfies m c1 \<or> satisfies m c2) ms"
proof -
  have "replicate (length ms) True = map (\<lambda>m. True) ms"
    by (simp add: map_replicate_const)
  then have "select ms conds = getitem_mask ms (map (\<lambda>m. \<forall>c\<in>set conds. satisfies m c) ms)"
    using foldl_mask_and [of "\<lambda>m. True" ms conds] by (simp add: select_def)
  then show ?thesis
    by (simp add: getitem_mask_map selection_mask_def mask_or_map)
qed

theorem select_and_mask_or_witness:
  "select
     [\<lparr>name = ''3FHL J1731.7-3003'', datasets_names = None\<rparr>,
      \<lparr>name = ''3FHL J1744.5-2609'', datasets_names = Some [''fermi_dataset'']\<rparr>,
      \<lparr>name = ''diffuse-iem'', datasets_names = Some [''cta_dataset'', ''fermi_dataset'']\<rparr>]
     [Datasets_names ''cta_dataset'', Name_substring ''3FHL'']
    = [\<lparr>name = ''3FHL J1731.7-3003'', datasets_names = None\<rparr>]
   \<and> getitem_mask
       [\<lparr>name = ''3FHL J1731.7-3003'', datasets_names = None\<rparr>,
        \<lparr>name = ''3FHL J1744.5-2609'', datasets_names = Some [''fermi_dataset'']\<rparr>,
        \<lparr>name = ''diffuse-iem'', datasets_names = Some [''cta_dataset'', ''fermi_dataset'']\<rparr>]
       (mask_or
          (selection_mask
             [\<lparr>name = ''3FHL J1731.7-3003'', datasets_names = None\<rparr>,
              \<lparr>name = ''3FHL J1744.5-2609'', datasets_names = Some [''fermi_dataset'']\<rparr>,
              \<lparr>name = ''diffuse-iem'',
                datasets_names = Some [''cta_dataset'', ''fermi_dataset'']\<rparr>]
             (Name_substring ''1744''))
          (selection_mask
             [\<lparr>name = ''3FHL J1731.7-3003'', datasets_names = None\<rparr>,
              \<lparr>name = ''3FHL J1744.5-2609'', datasets_names = Some [''fermi_dataset'']\<rparr>,
              \<lparr>name = ''diffuse-iem'',
                datasets_names = Some [''cta_dataset'', ''fermi_dataset'']\<rparr>]
             (Name_substring ''1731'')))
    = [\<lparr>name = ''3FHL J1731.7-3003'', datasets_names = None\<rparr>,
       \<lparr>name = ''3FHL J1744.5-2609'', datasets_names = Some [''fermi_dataset'']\<rparr>]"
  using select_and_mask_or
    [of "[\<lparr>name = ''3FHL J1731.7-3003'', datasets_names = None\<rparr>,
          \<lparr>name = ''3FHL J1744.5-2609'', datasets_names = Some [''fermi_dataset'']\<rparr>,
          \<lparr>name = ''diffuse-iem'',
            datasets_names = Some [''cta_dataset'', ''fermi_dataset'']\<rparr>]"
        "[Datasets_names ''cta_dataset'', Name_substring ''3FHL'']"
        "Name_substring ''1744''" "Name_substring ''1731''"]
  by simp

end
